theory Spec2Isabelle
  imports Main "HOL-Library.AList"
begin

section \<open>Python values, errors and string formatting\<close>

text \<open>
  The builder of \<^verbatim>\<open>optimum/nvidia/builder/base.py\<close> and the pipeline factory of
  \<^verbatim>\<open>optimum/nvidia/pipelines/__init__.py\<close> are embedded as functions that pass the
  builder object and the outside world (files, calls to collaborators) explicitly.
  Every exception the source can raise is a value of \<open>error\<close>; a function that can
  raise returns \<open>error + 'a\<close> with \<open>Inl\<close> for the exception. Debug and info
  logging changes no result and is left out; the warnings of \<^verbatim>\<open>validate\<close> are kept.
\<close>

datatype error =
    ValueError string
  | TypeError
  | KeyError string
  | AttributeError
  | NotImplementedError string
  | RuntimeError string
  | UnsupportedHardwareFeature
  | ExternalError string

text \<open>
  The values a HuggingFace configuration mapping holds, as far as the builder reads
  them: integers, strings and \<^verbatim>\<open>None\<close>.
\<close>

datatype pyval = PyInt int | PyStr string | PyNone

type_synonym config = "string \<rightharpoonup> pyval"

text \<open>\<^verbatim>\<open>str(n)\<close> for an integer: decimal digits, with a minus sign when negative.\<close>

definition digit_char :: "nat \<Rightarrow> char" where
  "digit_char d = ''0123456789'' ! d"

function str_nat :: "nat \<Rightarrow> string" where
  "str_nat n = (if n < 10 then [digit_char n] else str_nat (n div 10) @ [digit_char (n mod 10)])"
  by pat_completeness auto
termination
  by (relation "measure id") auto

declare str_nat.simps [simp del]

definition str_int :: "int \<Rightarrow> string" where
  "str_int i = (if i < 0 then CHR ''-'' # str_nat (nat (- i)) else str_nat (nat i))"

text \<open>What an f-string writes for a configuration value.\<close>

fun py_str :: "pyval \<Rightarrow> string" where
  "py_str (PyInt i) = str_int i"
| "py_str (PyStr s) = s"
| "py_str PyNone = ''None''"

text \<open>\<^verbatim>\<open>config[key]\<close>: a missing key raises \<^verbatim>\<open>KeyError\<close>.\<close>

definition getitem :: "config \<Rightarrow> string \<Rightarrow> error + pyval" where
  "getitem c k = (case c k of None \<Rightarrow> Inl (KeyError k) | Some v \<Rightarrow> Inr v)"

text \<open>
  A configuration value used as an operand of integer arithmetic (\<^verbatim>\<open>v - 1\<close>): a
  string or \<^verbatim>\<open>None\<close> there raises \<^verbatim>\<open>TypeError\<close>.
\<close>

fun as_int :: "pyval \<Rightarrow> error + int" where
  "as_int (PyInt i) = Inr i"
| "as_int _ = Inl TypeError"

text \<open>\<^verbatim>\<open>a + b\<close> on two optional integers: \<^verbatim>\<open>None\<close> on either side raises.\<close>

fun opt_add :: "int option \<Rightarrow> int option \<Rightarrow> error + int" where
  "opt_add (Some a) (Some b) = Inr (a + b)"
| "opt_add _ _ = Inl TypeError"

section \<open>The descriptors\<close>

type_synonym path = "string list"

definition joinpath :: "path \<Rightarrow> string \<Rightarrow> path" where
  "joinpath p name = p @ [name]"

record BuildInfo =
  parallel :: bool
  num_parallel_jobs :: int
  quantized_path :: "path option"

text \<open>
  \<^verbatim>\<open>BuildInfo\<close> is a \<^verbatim>\<open>NamedTuple\<close> of three fields declared without defaults, so its
  constructor needs all three arguments. An argument that a call leaves out is \<open>None\<close>
  here, and a call that leaves one out raises \<^verbatim>\<open>TypeError\<close>.
\<close>

fun BuildInfo_new :: "bool option \<Rightarrow> int option \<Rightarrow> path option option \<Rightarrow> error + BuildInfo" where
  "BuildInfo_new (Some p) (Some n) (Some q) =
     Inr \<lparr>parallel = p, num_parallel_jobs = n, quantized_path = q\<rparr>"
| "BuildInfo_new _ _ _ = Inl TypeError"

definition SERIAL_BUILD :: BuildInfo where
  "SERIAL_BUILD = \<lparr>parallel = False, num_parallel_jobs = 1, quantized_path = None\<rparr>"

text \<open>
  \<^verbatim>\<open>with_generation_profile\<close> takes \<^verbatim>\<open>max_batch_size: int\<close> and three
  \<^verbatim>\<open>Optional[int]\<close> bounds and stores them as they are, so the three may be \<^verbatim>\<open>None\<close>.
\<close>

record OptimizationProfile =
  max_batch_size :: int
  max_prompt_length :: "int option"
  max_new_tokens :: "int option"
  max_output_length :: "int option"

record ShardingInfo =
  tp_degree :: int
  pp_degree :: int
  world_size :: int
  num_gpus_per_node :: int

definition NO_SHARDING :: ShardingInfo where
  "NO_SHARDING = \<lparr>tp_degree = 1, pp_degree = 1, world_size = 1, num_gpus_per_node = 1\<rparr>"

text \<open>
  \<^verbatim>\<open>QuantMode\<close> is an integer flag of \<^verbatim>\<open>tensorrt_llm\<close>; its value is kept as a natural
  number. The field \<^verbatim>\<open>_qconfig\<close> holds \<^verbatim>\<open>None\<close>, a \<^verbatim>\<open>QuantMode\<close>, or the pair that
  \<^verbatim>\<open>validate\<close> stores.
\<close>

type_synonym QuantMode = nat

datatype qconfig = QNone | QMode QuantMode | QPair QuantMode int

type_synonym calibration = string

record builder =
  model_id_or_path :: string
  model_config :: config
  dtype :: pyval
  build_info :: BuildInfo
  sharding_info :: ShardingInfo
  optimization_profile :: "OptimizationProfile option"
  qconfig :: qconfig
  quantization_calibration :: "calibration option"
  beam_width :: int

text \<open>\<^verbatim>\<open>TensorRTEngineBuilder.__init__\<close>\<close>

definition init_builder :: "string \<Rightarrow> config \<Rightarrow> error + builder" where
  "init_builder model_id cfg =
     (case getitem cfg ''torch_dtype'' of
        Inl e \<Rightarrow> Inl e
      | Inr d \<Rightarrow> Inr \<lparr>model_id_or_path = model_id, model_config = cfg, dtype = d,
                      build_info = SERIAL_BUILD, sharding_info = NO_SHARDING,
                      optimization_profile = None, qconfig = QNone,
                      quantization_calibration = None, beam_width = - 1\<rparr>)"

section \<open>The fluent configuration calls\<close>

text \<open>
  \<^verbatim>\<open>enable_parallel_build\<close> builds its descriptor as \<^verbatim>\<open>BuildInfo(True, num_jobs)\<close>, with
  two arguments.
\<close>

definition enable_parallel_build :: "builder \<Rightarrow> int \<Rightarrow> error + builder" where
  "enable_parallel_build b num_jobs =
     (case BuildInfo_new (Some True) (Some num_jobs) None of
        Inl e \<Rightarrow> Inl e
      | Inr bi \<Rightarrow> Inr (b\<lparr>build_info := bi\<rparr>))"

text \<open>\<^verbatim>\<open>to(dtype)\<close>, with \<open>d\<close> the \<^verbatim>\<open>dtype.value\<close> of the argument.\<close>

definition to_dtype :: "builder \<Rightarrow> pyval \<Rightarrow> builder" where
  "to_dtype b d = (if d \<noteq> dtype b then b\<lparr>dtype := d\<rparr> else b)"

definition shard :: "builder \<Rightarrow> int \<Rightarrow> int \<Rightarrow> int \<Rightarrow> int \<Rightarrow> builder" where
  "shard b tp pp ws gpn =
     b\<lparr>sharding_info := \<lparr>tp_degree = tp, pp_degree = pp, world_size = ws, num_gpus_per_node = gpn\<rparr>\<rparr>"

definition with_generation_profile ::
  "builder \<Rightarrow> int \<Rightarrow> int option \<Rightarrow> int option \<Rightarrow> int option \<Rightarrow> builder" where
  "with_generation_profile b mbs mpl mnt mol =
     (let mol' = (case (mol, mpl, mnt) of
                    (None, Some p, Some n) \<Rightarrow> Some (p + n)
                  | _ \<Rightarrow> mol)
      in b\<lparr>optimization_profile :=
             Some \<lparr>max_batch_size = mbs, max_prompt_length = mpl,
                   max_new_tokens = mnt, max_output_length = mol'\<rparr>\<rparr>)"

definition with_sampling_strategy :: "builder \<Rightarrow> int \<Rightarrow> builder" where
  "with_sampling_strategy b num_beams = b\<lparr>beam_width := num_beams\<rparr>"

section \<open>Validation\<close>

text \<open>The three warnings \<^verbatim>\<open>validate\<close> can log, in place of their message texts.\<close>

datatype warning =
    WarnNoQuantization
  | WarnTruncating int int int int
  | WarnGreedySearch

text \<open>\<^verbatim>\<open>getattr(optim_profile, prop)\<close> for the four names the loop goes through.\<close>

definition getattr_profile :: "OptimizationProfile \<Rightarrow> string \<Rightarrow> int option" where
  "getattr_profile p prop =
     (if prop = ''max_batch_size'' then Some (max_batch_size p)
      else if prop = ''max_prompt_length'' then max_prompt_length p
      else if prop = ''max_new_tokens'' then max_new_tokens p
      else max_output_length p)"

definition invalid_ge :: "int \<Rightarrow> string \<Rightarrow> int \<Rightarrow> string" where
  "invalid_ge v prop mn =
     ''Invalid value ('' @ str_int v @ '') for '' @ prop @ ''. Needs to be >= '' @ str_int mn"

definition invalid_le :: "int \<Rightarrow> string \<Rightarrow> int \<Rightarrow> string" where
  "invalid_le v prop mx =
     ''Invalid value ('' @ str_int v @ '') for '' @ prop @ ''. Needs to be <= '' @ str_int mx"

text \<open>
  One pass of the loop body: \<^verbatim>\<open>prop_value < min_value\<close> raises \<^verbatim>\<open>TypeError\<close> when
  the value is \<^verbatim>\<open>None\<close>; the upper bound is compared only when there is one.
\<close>

definition check_prop :: "OptimizationProfile \<Rightarrow> string \<Rightarrow> int \<Rightarrow> int option \<Rightarrow> error option" where
  "check_prop p prop mn mx =
     (case getattr_profile p prop of
        None \<Rightarrow> Some TypeError
      | Some v \<Rightarrow>
          if v < mn then Some (ValueError (invalid_ge v prop mn))
          else (case mx of
                  None \<Rightarrow> None
                | Some m \<Rightarrow> if v > m then Some (ValueError (invalid_le v prop m)) else None))"

fun check_ranges :: "OptimizationProfile \<Rightarrow> (string \<times> int \<times> int option) list \<Rightarrow> error option" where
  "check_ranges p [] = None"
| "check_ranges p ((prop, mn, mx) # rest) =
     (case check_prop p prop mn mx of
        Some e \<Rightarrow> Some e
      | None \<Rightarrow> check_ranges p rest)"

text \<open>
  The list the loop of \<^verbatim>\<open>validate\<close> goes through: each property with its lower bound
  and its upper bound, if any. \<open>min_out\<close> is
  \<^verbatim>\<open>max_prompt_length + max_new_tokens\<close> and \<open>msl\<close> the model's
  \<^verbatim>\<open>max_position_embeddings\<close>.
\<close>

definition bounds_table :: "int \<Rightarrow> int \<Rightarrow> (string \<times> int \<times> int option) list" where
  "bounds_table min_out msl =
     [(''max_batch_size'', 1, None),
      (''max_prompt_length'', 1, Some (msl - 1)),
      (''max_new_tokens'', 1, Some (msl - 1)),
      (''max_output_length'', min_out, Some msl)]"

definition no_profile_message :: string where
  "no_profile_message =
     ''No optimization profile has been defined, please do set the profile you want this engine '' @
     ''to be optimized for through TRTEngineBuilder.with_optimization_profile().''"

text \<open>
  \<^verbatim>\<open>validate\<close> returns what it returns or raises, the builder as it has left it (the
  quantization default is stored before anything can raise), and the warnings logged.
  The list of bounds is built before the loop starts, so its arithmetic raises first.
\<close>

definition validate :: "builder \<Rightarrow> (error + bool) \<times> builder \<times> warning list" where
  "validate b0 =
     (let (b, ws) = (if qconfig b0 = QNone
                     then (b0\<lparr>qconfig := QPair 0 0\<rparr>, [WarnNoQuantization])
                     else (b0, []))
      in case optimization_profile b of
           None \<Rightarrow>
             (Inl (ValueError no_profile_message), b, ws)
         | Some optim_profile \<Rightarrow>
            (case getitem (model_config b) ''max_position_embeddings'' of
               Inl e \<Rightarrow> (Inl e, b, ws)
             | Inr max_sequence_length \<Rightarrow>
                (case as_int max_sequence_length of
                   Inl e \<Rightarrow> (Inl e, b, ws)
                 | Inr msl \<Rightarrow>
                    (case opt_add (max_prompt_length optim_profile) (max_new_tokens optim_profile) of
                       Inl e \<Rightarrow> (Inl e, b, ws)
                     | Inr min_out \<Rightarrow>
                        (case check_ranges optim_profile (bounds_table min_out msl) of
                           Some e \<Rightarrow> (Inl e, b, ws)
                         | None \<Rightarrow>
                            (let ws' = (if min_out > msl
                                        then ws @ [WarnTruncating (the (max_prompt_length optim_profile))
                                                     (the (max_new_tokens optim_profile)) msl
                                                     (msl - the (max_prompt_length optim_profile))]
                                        else ws)
                             in if beam_width b < 1
                                then (Inr True, b\<lparr>beam_width := 1\<rparr>, ws' @ [WarnGreedySearch])
                                else (Inr True, b, ws')))))))"

section \<open>The outside world: files, collaborators, hardware\<close>

text \<open>
  The file system is an association list from paths to nodes; what is looked up is the
  first entry of a path. Writing a file is taken to succeed (the output directory
  exists and is writable: \<^verbatim>\<open>build\<close> creates it before anything is written).
\<close>

datatype node = File string | Dir

type_synonym filesystem = "(path \<times> node) list"

definition path_exists :: "filesystem \<Rightarrow> path \<Rightarrow> bool" where
  "path_exists fs p \<longleftrightarrow> map_of fs p \<noteq> None"

definition is_dir :: "filesystem \<Rightarrow> path \<Rightarrow> bool" where
  "is_dir fs p \<longleftrightarrow> map_of fs p = Some Dir"

text \<open>\<^verbatim>\<open>os.listdir(p)\<close>: the names of the entries directly under \<open>p\<close>.\<close>

definition listdir :: "filesystem \<Rightarrow> path \<Rightarrow> string list" where
  "listdir fs p = remdups (map (\<lambda>(q, n). last q) (filter (\<lambda>(q, n). q \<noteq> [] \<and> butlast q = p) fs))"

definition endswith :: "string \<Rightarrow> string \<Rightarrow> bool" where
  "endswith s suf \<longleftrightarrow> length suf \<le> length s \<and> drop (length s - length suf) s = suf"

text \<open>
  One partition of the model graph, the \<^verbatim>\<open>Mapping\<close> of \<^verbatim>\<open>tensorrt_llm\<close> that the source
  imports as \<^verbatim>\<open>Shard\<close>. Its attribute \<^verbatim>\<open>world_size\<close> is \<open>shard_world_size\<close> here.
\<close>

record Shard =
  shard_world_size :: int
  rank :: int
  gpus_per_node :: int
  tp_size :: int
  pp_size :: int

type_synonym trt_model = string

datatype adapter = LLaMAForCausalLM

text \<open>The calls to collaborators that the claims speak of, in the order they happen.\<close>

datatype event =
    EvWrite path
  | EvFloat8Query
  | EvLoadPretrained string
  | EvCalibrate calibration
  | EvQuantizerSave path
  | EvFromCheckpoint path
  | EvFromHuggingFace string
  | EvBuildEngine string

record world =
  fs :: filesystem
  events :: "event list"

definition log_event :: "event \<Rightarrow> world \<Rightarrow> world" where
  "log_event ev w = w\<lparr>events := events w @ [ev]\<rparr>"

definition write_file :: "path \<Rightarrow> string \<Rightarrow> world \<Rightarrow> world" where
  "write_file p data w = w\<lparr>fs := AList.update p (File data) (fs w), events := events w @ [EvWrite p]\<rparr>"

text \<open>The paths written since a point of the trace.\<close>

fun written :: "event list \<Rightarrow> path list" where
  "written [] = []"
| "written (EvWrite p # evs) = p # written evs"
| "written (_ # evs) = written evs"

fun is_load :: "event \<Rightarrow> bool" where
  "is_load (EvLoadPretrained _) = True"
| "is_load (EvFromCheckpoint _) = True"
| "is_load (EvFromHuggingFace _) = True"
| "is_load _ = False"

text \<open>
  The arguments \<^verbatim>\<open>create_builder_config\<close> hands to the external builder, which keeps
  them in the configuration object it returns.
\<close>

record build_config =
  bc_name :: pyval
  precision :: pyval
  fp8 :: bool
  hidden_size :: pyval
  num_layers :: pyval
  bc_max_batch_size :: int
  tensor_parallel :: int
  use_refit :: bool
  quant_mode :: qconfig
  huggingface :: config
  hidden_act :: pyval
  num_kv_heads :: pyval
  num_heads :: pyval
  max_position_embeddings :: pyval
  max_input_len :: "int option"
  max_output_len :: "int option"
  max_num_tokens :: "int option"
  max_beam_width :: int
  strongly_typed :: bool
  pipeline_parallel :: int
  parallel_build :: bool
  vocab_size :: pyval
  opt_level :: "int option"

text \<open>What \<^verbatim>\<open>prepare_inputs\<close> asks of the model.\<close>

record model_inputs =
  in_max_batch_size :: int
  in_max_input_len :: "int option"
  in_max_seq_len :: pyval
  in_max_num_tokens :: "int option"
  in_max_beam_width :: int
  in_use_cache :: bool

text \<open>The network as \<^verbatim>\<open>_build_engine_for_rank\<close> configures it before the engine is built.\<close>

record network =
  net_name :: string
  gpt_attention_plugin :: "pyval option"
  bert_attention_plugin :: "pyval option"
  context_fmha :: bool
  remove_input_padding :: bool
  gemm_plugin :: "pyval option"
  enable_xqa :: bool
  paged_kv_cache :: bool
  nccl_plugin :: "pyval option"
  named_parameters :: "trt_model option"
  net_inputs :: "model_inputs option"
  debug_outputs :: bool

text \<open>
  Everything the builder takes from outside this repository's two files: the hardware
  query, the two tests of \<^verbatim>\<open>QuantMode\<close>, the file-name constants of
  \<^verbatim>\<open>huggingface_hub\<close> and \<^verbatim>\<open>optimum.nvidia.utils\<close>, the environment flags, the model
  loaders, the calibrator and the engine builder. They are parameters: each theorem
  holds for every choice of them.
\<close>

record externals =
  has_float8_support :: bool
  has_fp8_qdq :: "QuantMode \<Rightarrow> bool"
  has_fp8_kv_cache :: "QuantMode \<Rightarrow> bool"
  CONFIG_NAME :: string
  OPTIMUM_NVIDIA_CONFIG_FILE :: string
  TENSORRT_TIMINGS_FILE :: string
  parse_flag_from_env :: "string \<Rightarrow> bool"
  sched_getaffinity :: "nat list"
  hf_from_pretrained :: "string \<Rightarrow> pyval \<Rightarrow> error + string"
  ammo_calibrate :: "string \<Rightarrow> qconfig \<Rightarrow> pyval \<Rightarrow> int \<Rightarrow> calibration \<Rightarrow> error + string"
  ammo_save :: "string \<Rightarrow> path \<Rightarrow> filesystem \<Rightarrow> filesystem"
  from_checkpoint :: "adapter \<Rightarrow> path \<Rightarrow> error + trt_model"
  from_hugging_face :: "adapter \<Rightarrow> string \<Rightarrow> pyval \<Rightarrow> Shard \<Rightarrow> qconfig \<Rightarrow> error + trt_model"
  build_engine :: "network \<Rightarrow> build_config \<Rightarrow> string option"
  json_dump :: "config \<Rightarrow> string"
  timing_cache :: "build_config \<Rightarrow> string"
  saved_config :: "build_config \<Rightarrow> string"
  to_onnx :: "network \<Rightarrow> string"

section \<open>Quantization\<close>

text \<open>
  A method called on \<^verbatim>\<open>_qconfig\<close>: \<^verbatim>\<open>None\<close> and a tuple have no such attribute.
\<close>

fun qconfig_has_fp8_qdq :: "externals \<Rightarrow> qconfig \<Rightarrow> error + bool" where
  "qconfig_has_fp8_qdq ext (QMode m) = Inr (has_fp8_qdq ext m)"
| "qconfig_has_fp8_qdq ext _ = Inl AttributeError"

definition with_quantization_profile ::
  "externals \<Rightarrow> builder \<Rightarrow> QuantMode \<Rightarrow> calibration option \<Rightarrow> world \<Rightarrow> (error + builder) \<times> world" where
  "with_quantization_profile ext b mode calib w =
     (if has_fp8_qdq ext mode \<or> has_fp8_kv_cache ext mode then
        (let w' = log_event EvFloat8Query w in
         if \<not> has_float8_support ext then (Inl UnsupportedHardwareFeature, w')
         else (Inr (b\<lparr>qconfig := QMode mode, quantization_calibration := calib\<rparr>), w'))
      else (Inr (b\<lparr>qconfig := QMode mode, quantization_calibration := calib\<rparr>), w))"

text \<open>
  The calibration branch of \<^verbatim>\<open>quantize\<close>: load the source model, calibrate, save under
  the calibration path.
\<close>

definition calibrate_model :: "externals \<Rightarrow> builder \<Rightarrow> calibration \<Rightarrow> path \<Rightarrow> world \<Rightarrow> (error + unit) \<times> world" where
  "calibrate_model ext b calib calibration_path w =
     (let w1 = log_event (EvLoadPretrained (model_id_or_path b)) w in
      case hf_from_pretrained ext (model_id_or_path b) (dtype b) of
        Inl e \<Rightarrow> (Inl e, w1)
      | Inr hf_model \<Rightarrow>
         (let w2 = log_event (EvCalibrate calib) w1 in
          case ammo_calibrate ext hf_model (qconfig b) (dtype b) (tp_degree (sharding_info b)) calib of
            Inl e \<Rightarrow> (Inl e, w2)
          | Inr quantized \<Rightarrow>
             (Inr (), log_event (EvQuantizerSave calibration_path)
                        (w2\<lparr>fs := ammo_save ext quantized calibration_path (fs w2)\<rparr>))))"

definition quantize :: "externals \<Rightarrow> builder \<Rightarrow> path \<Rightarrow> world \<Rightarrow> (error + unit) \<times> builder \<times> world" where
  "quantize ext b output_path w =
     (let calibration_path = joinpath output_path ''calibration'';
          b' = b\<lparr>build_info := \<lparr>parallel = parallel (build_info b),
                                 num_parallel_jobs = num_parallel_jobs (build_info b),
                                 quantized_path = Some calibration_path\<rparr>\<rparr>
      in case quantization_calibration b of
           None \<Rightarrow> (Inr (), b', w)
         | Some calib \<Rightarrow>
            (let calibration_data = listdir (fs w) calibration_path;
                 checked = (path_exists (fs w) calibration_path \<and> is_dir (fs w) calibration_path
                            \<and> length calibration_data = 2);
                 has_json = (checked \<and> list_ex (\<lambda>f. endswith f ''.json'') calibration_data);
                 has_qweight = (checked \<and> list_ex (\<lambda>f. endswith f ''.safetensors'') calibration_data)
             in if \<not> path_exists (fs w) calibration_path \<or> \<not> (has_json \<and> has_qweight) then
                  (case calibrate_model ext b calib calibration_path w of
                     (Inl e, w') \<Rightarrow> (Inl e, b, w')
                   | (Inr u, w') \<Rightarrow> (Inr (), b', w'))
                else (Inr (), b', w)))"

section \<open>Building one engine\<close>

definition create_unique_engine_name :: "pyval \<Rightarrow> pyval \<Rightarrow> int \<Rightarrow> int \<Rightarrow> string" where
  "create_unique_engine_name identifier dt rk tp =
     py_str identifier @ ''_'' @ py_str dt @ ''_tp'' @ str_int tp @ ''_rank'' @ str_int rk @ ''.engine''"

definition MODEL_TYPE_TO_TRT_IMPL :: "(string \<times> adapter) list" where
  "MODEL_TYPE_TO_TRT_IMPL = [(''llama'', LLaMAForCausalLM), (''mistral'', LLaMAForCausalLM)]"

text \<open>\<^verbatim>\<open>_MODEL_TYPE_TO_TRT_IMPL[model_type]\<close>: only a string can be one of its keys.\<close>

fun lookup_adapter :: "pyval \<Rightarrow> error + adapter" where
  "lookup_adapter (PyStr t) =
     (case map_of MODEL_TYPE_TO_TRT_IMPL t of None \<Rightarrow> Inl (KeyError t) | Some a \<Rightarrow> Inr a)"
| "lookup_adapter v = Inl (KeyError (py_str v))"

text \<open>Sequencing of steps that can raise: the first exception ends the sequence.\<close>

definition bind_err :: "error + 'a \<Rightarrow> ('a \<Rightarrow> error + 'b) \<Rightarrow> error + 'b" where
  "bind_err m f = (case m of Inl e \<Rightarrow> Inl e | Inr x \<Rightarrow> f x)"

text \<open>An attribute read on \<^verbatim>\<open>self._optimization_profile\<close>, which may be \<^verbatim>\<open>None\<close>.\<close>

definition profile_attr :: "builder \<Rightarrow> (OptimizationProfile \<Rightarrow> 'a) \<Rightarrow> error + 'a" where
  "profile_attr b field =
     (case optimization_profile b of None \<Rightarrow> Inl AttributeError | Some p \<Rightarrow> Inr (field p))"

text \<open>
  \<^verbatim>\<open>create_builder_config\<close>: the keyword arguments are evaluated from left to right, so
  the first one that raises decides the exception. The default of
  \<^verbatim>\<open>config.get("num_key_value_heads", ...)\<close> is evaluated before the lookup.
\<close>

definition create_builder_config ::
  "externals \<Rightarrow> builder \<Rightarrow> Shard \<Rightarrow> bool \<Rightarrow> int option \<Rightarrow> error + build_config" where
  "create_builder_config ext b shd is_parallel opt =
     (let config = model_config b in
      bind_err (getitem config ''model_type'') (\<lambda>name.
      bind_err (qconfig_has_fp8_qdq ext (qconfig b)) (\<lambda>fp8_flag.
      bind_err (getitem config ''hidden_size'') (\<lambda>hs.
      bind_err (getitem config ''num_hidden_layers'') (\<lambda>nl.
      bind_err (profile_attr b max_batch_size) (\<lambda>mbs.
      bind_err (getitem config ''hidden_act'') (\<lambda>act.
      bind_err (getitem config ''num_attention_heads'') (\<lambda>nah.
      bind_err (getitem config ''num_attention_heads'') (\<lambda>nh.
      bind_err (getitem config ''max_position_embeddings'') (\<lambda>mpe.
      bind_err (profile_attr b max_prompt_length) (\<lambda>mil.
      bind_err (profile_attr b max_output_length) (\<lambda>mol.
      bind_err (qconfig_has_fp8_qdq ext (qconfig b)) (\<lambda>st.
      bind_err (getitem config ''vocab_size'') (\<lambda>vs.
        Inr \<lparr>bc_name = name, precision = dtype b, fp8 = fp8_flag, hidden_size = hs,
             num_layers = nl, bc_max_batch_size = mbs, tensor_parallel = tp_size shd,
             use_refit = False, quant_mode = qconfig b, huggingface = config,
             hidden_act = act,
             num_kv_heads = (case config ''num_key_value_heads'' of None \<Rightarrow> nah | Some v \<Rightarrow> v),
             num_heads = nh, max_position_embeddings = mpe, max_input_len = mil,
             max_output_len = mol, max_num_tokens = None, max_beam_width = beam_width b,
             strongly_typed = st, pipeline_parallel = pp_size shd,
             parallel_build = is_parallel, vocab_size = vs, opt_level = opt\<rparr>))))))))))))))"

definition prepare_inputs :: "builder \<Rightarrow> error + model_inputs" where
  "prepare_inputs b =
     bind_err (profile_attr b max_batch_size) (\<lambda>mbs.
     bind_err (profile_attr b max_prompt_length) (\<lambda>mil.
     bind_err (getitem (model_config b) ''max_position_embeddings'') (\<lambda>msl.
     bind_err (profile_attr b max_new_tokens) (\<lambda>mnt.
       Inr \<lparr>in_max_batch_size = mbs, in_max_input_len = mil, in_max_seq_len = msl,
            in_max_num_tokens = mnt, in_max_beam_width = beam_width b, in_use_cache = True\<rparr>))))"

text \<open>The network with its name and plugins set, before the weights are loaded.\<close>

definition configure_network :: "builder \<Rightarrow> Shard \<Rightarrow> string \<Rightarrow> build_config \<Rightarrow> network" where
  "configure_network b shd ranked_engine_name bc =
     \<lparr>net_name = ranked_engine_name,
      gpt_attention_plugin = Some (dtype b),
      bert_attention_plugin = Some (dtype b),
      context_fmha = True,
      remove_input_padding = True,
      gemm_plugin = (if \<not> fp8 bc then Some (dtype b) else None),
      enable_xqa = False,
      paged_kv_cache = False,
      nccl_plugin = (if shard_world_size shd > 1 then Some (dtype b) else None),
      named_parameters = None,
      net_inputs = None,
      debug_outputs = False\<rparr>"

text \<open>
  The weights come from the calibration checkpoint when fp8 is on and a quantized path
  is stored, and from the source model otherwise.
\<close>

definition load_weights ::
  "externals \<Rightarrow> builder \<Rightarrow> Shard \<Rightarrow> build_config \<Rightarrow> adapter \<Rightarrow> world \<Rightarrow> (error + trt_model) \<times> world" where
  "load_weights ext b shd bc ad w =
     (case (fp8 bc, quantized_path (build_info b)) of
        (True, Some qp) \<Rightarrow> (from_checkpoint ext ad qp, log_event (EvFromCheckpoint qp) w)
      | _ \<Rightarrow> (from_hugging_face ext ad (model_id_or_path b) (dtype b) shd (qconfig b),
              log_event (EvFromHuggingFace (model_id_or_path b)) w))"

text \<open>
  What follows the engine build: rank 0 stores the three shared files, a missing engine
  raises, and the engine is written under its ranked name.
\<close>

definition store_outputs ::
  "externals \<Rightarrow> builder \<Rightarrow> Shard \<Rightarrow> path \<Rightarrow> string \<Rightarrow> build_config \<Rightarrow> string option \<Rightarrow> world
     \<Rightarrow> (error + unit) \<times> world" where
  "store_outputs ext b shd output_path ranked_engine_name bc engine w =
     (let w1 = (if rank shd = 0 then
                  write_file (joinpath output_path (OPTIMUM_NVIDIA_CONFIG_FILE ext)) (saved_config ext bc)
                    (write_file (joinpath output_path (TENSORRT_TIMINGS_FILE ext)) (timing_cache ext bc)
                      (write_file (joinpath output_path (CONFIG_NAME ext)) (json_dump ext (model_config b)) w))
                else w)
      in case engine of
           None \<Rightarrow> (Inl (RuntimeError ''TRT Engine build failed... Please check the logs and open up an issue.''), w1)
         | Some bytes \<Rightarrow> (Inr (), write_file (joinpath output_path ranked_engine_name) bytes w1))"

definition build_engine_for_rank ::
  "externals \<Rightarrow> builder \<Rightarrow> Shard \<Rightarrow> path \<Rightarrow> int option \<Rightarrow> bool \<Rightarrow> world \<Rightarrow> (error + unit) \<times> world" where
  "build_engine_for_rank ext b shd output_path opt is_parallel w =
     (case getitem (model_config b) ''model_type'' of
        Inl e \<Rightarrow> (Inl e, w)
      | Inr model_type \<Rightarrow>
         (let ranked_engine_name = create_unique_engine_name model_type (dtype b) (rank shd) (tp_size shd) in
          case create_builder_config ext b shd is_parallel opt of
            Inl e \<Rightarrow> (Inl e, w)
          | Inr bc \<Rightarrow>
             (let net = configure_network b shd ranked_engine_name bc in
              case lookup_adapter model_type of
                Inl e \<Rightarrow> (Inl e, w)
              | Inr ad \<Rightarrow>
                 (case load_weights ext b shd bc ad w of
                    (Inl e, w1) \<Rightarrow> (Inl e, w1)
                  | (Inr model, w1) \<Rightarrow>
                     (case prepare_inputs b of
                        Inl e \<Rightarrow> (Inl e, w1)
                      | Inr inputs \<Rightarrow>
                         (let net1 = net\<lparr>named_parameters := Some model, net_inputs := Some inputs\<rparr>;
                              net2 = (if parse_flag_from_env ext ''OPTIMUM_NVIDIA_ENABLE_DEBUG_OUTPUTS''
                                      then net1\<lparr>debug_outputs := True\<rparr> else net1);
                              w2 = (if parse_flag_from_env ext ''OPTIMUM_NVIDIA_OUTPUT_ONNX_IR''
                                    then write_file (joinpath output_path ''model.onnx'') (to_onnx ext net2) w1
                                    else w1);
                              engine = build_engine ext net2 bc;
                              w3 = log_event (EvBuildEngine ranked_engine_name) w2
                          in store_outputs ext b shd output_path ranked_engine_name bc engine w3))))))"

section \<open>Dispatch over the shards\<close>

fun build_serial ::
  "externals \<Rightarrow> builder \<Rightarrow> Shard list \<Rightarrow> path \<Rightarrow> int option \<Rightarrow> world \<Rightarrow> (error + unit) \<times> world" where
  "build_serial ext b [] output_path opt w = (Inr (), w)"
| "build_serial ext b (shd # rest) output_path opt w =
     (case build_engine_for_rank ext b shd output_path opt False w of
        (Inl e, w') \<Rightarrow> (Inl e, w')
      | (Inr u, w') \<Rightarrow> build_serial ext b rest output_path opt w')"

text \<open>
  The value of \<^verbatim>\<open>num_jobs\<close> in \<^verbatim>\<open>_build_parallel\<close>: the configured integer, the set that
  \<^verbatim>\<open>sched_getaffinity(0)\<close> returns, or the list of shards that the third statement
  assigns to it.
\<close>

datatype num_jobs = JobsInt int | JobsCpuSet "nat list" | JobsShards "Shard list"

text \<open>\<^verbatim>\<open>num_jobs > len(shard_info)\<close>: a set does not compare with an integer.\<close>

fun jobs_gt :: "num_jobs \<Rightarrow> int \<Rightarrow> error + bool" where
  "jobs_gt (JobsInt n) k = Inr (n > k)"
| "jobs_gt _ k = Inl TypeError"

text \<open>
  \<^verbatim>\<open>Pool(processes)\<close> of \<^verbatim>\<open>multiprocessing\<close> starts with the test \<^verbatim>\<open>processes < 1\<close>, which
  raises \<^verbatim>\<open>TypeError\<close> for a list or a set and leads to \<^verbatim>\<open>ValueError\<close> for an integer
  below one.
\<close>

fun Pool_new :: "num_jobs \<Rightarrow> error + int" where
  "Pool_new (JobsInt n) =
     (if n < 1 then Inl (ValueError ''Number of processes must be at least 1'') else Inr n)"
| "Pool_new _ = Inl TypeError"

text \<open>
  \<^verbatim>\<open>Pool.map(func, iterable, chunksize=None)\<close>: a keyword that is not one of its three
  parameters raises \<^verbatim>\<open>TypeError\<close> when the call is bound, before any task runs; so
  does an object that cannot be iterated, written \<open>None\<close> here. Otherwise the function
  is applied to every item, and the first exception of a task is raised again.
\<close>

fun run_tasks :: "('a \<Rightarrow> world \<Rightarrow> (error + unit) \<times> world) \<Rightarrow> 'a list \<Rightarrow> world \<Rightarrow> (error + unit) \<times> world" where
  "run_tasks func [] w = (Inr (), w)"
| "run_tasks func (x # xs) w =
     (case func x w of
        (Inl e, w') \<Rightarrow> (Inl e, w')
      | (Inr u, w') \<Rightarrow> run_tasks func xs w')"

definition Pool_map ::
  "('a \<Rightarrow> world \<Rightarrow> (error + unit) \<times> world) \<Rightarrow> 'a list option \<Rightarrow> string list \<Rightarrow> world
     \<Rightarrow> (error + unit) \<times> world" where
  "Pool_map func iterable kwargs w =
     (if \<not> list_all (\<lambda>k. k \<in> set [''func'', ''iterable'', ''chunksize'']) kwargs then (Inl TypeError, w)
      else case iterable of
             None \<Rightarrow> (Inl TypeError, w)
           | Some xs \<Rightarrow> run_tasks func xs w)"

text \<open>
  The loop of \<^verbatim>\<open>_build_parallel\<close>. Each pass calls
  \<^verbatim>\<open>builders.map(self._build_engine_for_rank, shard, output_path, is_parallel=True, opt_level=opt_level)\<close>:
  the iterable is one \<^verbatim>\<open>Shard\<close>, which cannot be iterated, and the two keywords are
  handed to \<^verbatim>\<open>map\<close> itself. A task would call the build step with one argument, which
  raises \<^verbatim>\<open>TypeError\<close> as well.
\<close>

fun build_parallel_loop ::
  "externals \<Rightarrow> builder \<Rightarrow> Shard list \<Rightarrow> path \<Rightarrow> int option \<Rightarrow> world \<Rightarrow> (error + unit) \<times> world" where
  "build_parallel_loop ext b [] output_path opt w = (Inr (), w)"
| "build_parallel_loop ext b (shd # rest) output_path opt w =
     (case Pool_map (\<lambda>(x::Shard) w'. (Inl TypeError, w')) None [''is_parallel'', ''opt_level''] w of
        (Inl e, w') \<Rightarrow> (Inl e, w')
      | (Inr u, w') \<Rightarrow> build_parallel_loop ext b rest output_path opt w')"

definition build_parallel ::
  "externals \<Rightarrow> builder \<Rightarrow> Shard list \<Rightarrow> path \<Rightarrow> int option \<Rightarrow> world \<Rightarrow> (error + unit) \<times> world" where
  "build_parallel ext b shard_info output_path opt w =
     (let num_jobs = (if num_parallel_jobs (build_info b) > 1
                      then JobsInt (num_parallel_jobs (build_info b))
                      else JobsCpuSet (sched_getaffinity ext))
      in case jobs_gt num_jobs (int (length shard_info)) of
           Inl e \<Rightarrow> (Inl e, w)
         | Inr gt \<Rightarrow>
            (let num_jobs' = (if gt then JobsShards shard_info else num_jobs) in
             case Pool_new num_jobs' of
               Inl e \<Rightarrow> (Inl e, w)
             | Inr pool \<Rightarrow> build_parallel_loop ext b shard_info output_path opt w))"

section \<open>The pipeline factory\<close>

datatype pipeline_class = TextGenerationPipeline

datatype model_class = AutoModelForCausalLM

definition SUPPORTED_MODEL_WITH_TASKS :: "(string \<times> (string \<times> pipeline_class \<times> model_class) list) list" where
  "SUPPORTED_MODEL_WITH_TASKS =
     [(''llama'', [(''text-generation'', (TextGenerationPipeline, AutoModelForCausalLM))])]"

text \<open>
  The second argument of \<^verbatim>\<open>pipeline\<close> is a model identifier or path, or an engine that
  is already loaded (an instance of \<^verbatim>\<open>TensorRTForCausalLM\<close>).
\<close>

datatype model_ref = ModelPath string | EngineInstance string

text \<open>
  The loaders of \<^verbatim>\<open>transformers\<close> and of the model classes, as parameters: the model
  type that \<^verbatim>\<open>AutoConfig\<close> reads, the tokenizer, the model.
\<close>

record hub =
  auto_config_model_type :: "model_ref \<Rightarrow> error + string"
  auto_tokenizer :: "model_ref \<Rightarrow> error + string"
  model_from_pretrained :: "model_class \<Rightarrow> model_ref \<Rightarrow> error + string"

record pipeline_instance =
  pipeline_factory :: pipeline_class
  pipeline_model :: string
  pipeline_tokenizer :: string

definition pipeline :: "hub \<Rightarrow> string \<Rightarrow> model_ref \<Rightarrow> string option \<Rightarrow> error + pipeline_instance" where
  "pipeline h task model_or_path tokenizer =
     (case auto_config_model_type h model_or_path of
        Inl e \<Rightarrow> Inl e
      | Inr model_type \<Rightarrow>
         (case map_of SUPPORTED_MODEL_WITH_TASKS model_type of
            None \<Rightarrow> Inl (NotImplementedError (''Model type '' @ model_type @ '' is not currently supported''))
          | Some tasks \<Rightarrow>
             (case map_of tasks task of
                None \<Rightarrow> Inl (ValueError (''Task '' @ task @ '' is not supported yet for '' @ model_type @ ''.''))
              | Some (pf, mf) \<Rightarrow>
                 (case (case tokenizer of
                          None \<Rightarrow> auto_tokenizer h model_or_path
                        | Some t \<Rightarrow> Inr t) of
                    Inl e \<Rightarrow> Inl e
                  | Inr tok \<Rightarrow>
                     (case (case model_or_path of
                              EngineInstance m \<Rightarrow> Inr m
                            | ModelPath p \<Rightarrow> model_from_pretrained h mf model_or_path) of
                        Inl e \<Rightarrow> Inl e
                      | Inr model \<Rightarrow>
                          Inr \<lparr>pipeline_factory = pf, pipeline_model = model, pipeline_tokenizer = tok\<rparr>)))))"

section \<open>Concrete inputs\<close>

text \<open>A llama configuration with 120 positions, and a builder made from it.\<close>

definition config120 :: config where
  "config120 =
     [''model_type'' \<mapsto> PyStr ''llama'', ''torch_dtype'' \<mapsto> PyStr ''float16'',
      ''max_position_embeddings'' \<mapsto> PyInt 120, ''hidden_size'' \<mapsto> PyInt 64,
      ''num_hidden_layers'' \<mapsto> PyInt 2, ''num_attention_heads'' \<mapsto> PyInt 4,
      ''hidden_act'' \<mapsto> PyStr ''silu'', ''vocab_size'' \<mapsto> PyInt 1000]"

definition builder120 :: builder where
  "builder120 =
     \<lparr>model_id_or_path = ''llama-checkpoint'', model_config = config120, dtype = PyStr ''float16'',
      build_info = SERIAL_BUILD, sharding_info = NO_SHARDING,
      optimization_profile = None, qconfig = QNone,
      quantization_calibration = None, beam_width = - 1\<rparr>"

text \<open>The same builder ready to build: a profile, no quantization, greedy sampling.\<close>

definition ready_builder :: builder where
  "ready_builder =
     (with_generation_profile builder120 1 (Some 100) (Some 20) None)\<lparr>qconfig := QMode 0, beam_width := 1\<rparr>"

text \<open>The ready builder with a parallel build over two jobs stored.\<close>

definition parallel_builder :: builder where
  "parallel_builder =
     ready_builder\<lparr>build_info := \<lparr>parallel = True, num_parallel_jobs = 2, quantized_path = None\<rparr>\<rparr>"

text \<open>The ready builder with a calibration dataset.\<close>

definition calibrating_builder :: builder where
  "calibrating_builder = ready_builder\<lparr>quantization_calibration := Some ''dataset''\<rparr>"

text \<open>Two shards of a tensor-parallel build over two devices.\<close>

definition shard0 :: Shard where
  "shard0 = \<lparr>shard_world_size = 2, rank = 0, gpus_per_node = 2, tp_size = 2, pp_size = 1\<rparr>"

definition shard1 :: Shard where
  "shard1 = \<lparr>shard_world_size = 2, rank = 1, gpus_per_node = 2, tp_size = 2, pp_size = 1\<rparr>"

text \<open>
  Deterministic stand-ins for the collaborators: hardware without float8, loaders that
  succeed, an engine builder whose output is a function of the network's name, both
  environment flags off.
\<close>

definition stub_ext :: externals where
  "stub_ext =
     \<lparr>has_float8_support = False,
      has_fp8_qdq = (\<lambda>m. m div 256 mod 2 = 1),
      has_fp8_kv_cache = (\<lambda>m. m div 128 mod 2 = 1),
      CONFIG_NAME = ''config.json'',
      OPTIMUM_NVIDIA_CONFIG_FILE = ''build.json'',
      TENSORRT_TIMINGS_FILE = ''timings.cache'',
      parse_flag_from_env = (\<lambda>name. False),
      sched_getaffinity = [0, 1, 2, 3],
      hf_from_pretrained = (\<lambda>model_id dt. Inr (''hf:'' @ model_id)),
      ammo_calibrate = (\<lambda>hf q dt tp calib. Inr (''quantized:'' @ hf)),
      ammo_save = (\<lambda>q p files.
                     AList.update (joinpath p ''model.safetensors'') (File q)
                       (AList.update (joinpath p ''config.json'') (File ''{}'')
                         (AList.update p Dir files))),
      from_checkpoint = (\<lambda>ad p. Inr ''checkpoint''),
      from_hugging_face = (\<lambda>ad model_id dt shd q. Inr (''trt:'' @ model_id)),
      build_engine = (\<lambda>net bc. Some (''engine:'' @ net_name net)),
      json_dump = (\<lambda>c. ''hf-config''),
      timing_cache = (\<lambda>bc. ''timings''),
      saved_config = (\<lambda>bc. ''build-config''),
      to_onnx = (\<lambda>net. ''onnx'')\<rparr>"

text \<open>The same collaborators with the interchange-format export switched on.\<close>

definition onnx_ext :: externals where
  "onnx_ext = stub_ext\<lparr>parse_flag_from_env := (\<lambda>name. name = ''OPTIMUM_NVIDIA_OUTPUT_ONNX_IR'')\<rparr>"

text \<open>Collaborators whose engine builder returns no engine.\<close>

definition no_engine_ext :: externals where
  "no_engine_ext = stub_ext\<lparr>build_engine := (\<lambda>net bc. None)\<rparr>"

text \<open>Collaborators with the export switched on and a loader that raises.\<close>

definition failing_loader_ext :: externals where
  "failing_loader_ext =
     onnx_ext\<lparr>from_hugging_face := (\<lambda>ad model_id dt shd q. Inl (ExternalError ''load failed''))\<rparr>"

text \<open>An empty output directory, and one that holds a calibration cache.\<close>

definition world0 :: world where
  "world0 = \<lparr>fs = [([''out''], Dir)], events = []\<rparr>"

definition world_cached :: world where
  "world_cached =
     \<lparr>fs = [([''out''], Dir), ([''out'', ''calibration''], Dir),
            ([''out'', ''calibration'', ''config.json''], File ''{}''),
            ([''out'', ''calibration'', ''model.safetensors''], File ''weights'')],
      events = []\<rparr>"

text \<open>A hub that knows a llama checkpoint and a checkpoint of an unregistered type.\<close>

definition stub_hub :: hub where
  "stub_hub =
     \<lparr>auto_config_model_type =
        (\<lambda>m. case m of
                ModelPath p \<Rightarrow> Inr (if p = ''some-gpt2-checkpoint'' then ''gpt2'' else ''llama'')
              | EngineInstance e \<Rightarrow> Inr ''llama''),
      auto_tokenizer = (\<lambda>m. Inr ''tokenizer''),
      model_from_pretrained = (\<lambda>mc m. Inr ''model'')\<rparr>"

section \<open>Properties of the configuration calls\<close>

lemma init_builder120: "init_builder ''llama-checkpoint'' config120 = Inr builder120"
  by (simp add: init_builder_def getitem_def config120_def builder120_def)

text \<open>
  C2. \<^verbatim>\<open>enable_parallel_build(num_jobs)\<close> is meant to store a descriptor with
  \<open>parallel = True\<close> and \<open>num_parallel_jobs = num_jobs\<close> and to return the builder. The
  source constructs the three-field descriptor from two arguments, so for every
  builder and every \<open>num_jobs\<close> the call raises \<^verbatim>\<open>TypeError\<close> and stores nothing.
\<close>

theorem enable_parallel_build_raises:
  "enable_parallel_build b num_jobs = Inl TypeError"
  by (simp add: enable_parallel_build_def)

section \<open>Properties of validation\<close>

lemma getattr_profile_simps:
  "getattr_profile p ''max_batch_size'' = Some (max_batch_size p)"
  "getattr_profile p ''max_prompt_length'' = max_prompt_length p"
  "getattr_profile p ''max_new_tokens'' = max_new_tokens p"
  "getattr_profile p ''max_output_length'' = max_output_length p"
  by (simp_all add: getattr_profile_def)

lemma check_ranges_first:
  assumes P: "max_prompt_length p = Some mpl" and N: "max_new_tokens p = Some mnt" and M: "max_output_length p = Some mol"
  shows "check_ranges p (bounds_table min_out msl) =
     (if max_batch_size p < 1 then Some (ValueError (invalid_ge (max_batch_size p) ''max_batch_size'' 1))
      else if mpl < 1 then Some (ValueError (invalid_ge mpl ''max_prompt_length'' 1))
      else if msl - 1 < mpl then Some (ValueError (invalid_le mpl ''max_prompt_length'' (msl - 1)))
      else if mnt < 1 then Some (ValueError (invalid_ge mnt ''max_new_tokens'' 1))
      else if msl - 1 < mnt then Some (ValueError (invalid_le mnt ''max_new_tokens'' (msl - 1)))
      else if mol < min_out then Some (ValueError (invalid_ge mol ''max_output_length'' min_out))
      else if msl < mol then Some (ValueError (invalid_le mol ''max_output_length'' msl))
      else None)"
  using assms
  by (simp add: bounds_table_def check_prop_def getattr_profile_simps)


lemma check_ranges_names_field:
  assumes P: "max_prompt_length p = Some mpl" and N: "max_new_tokens p = Some mnt" and M: "max_output_length p = Some mol"
    and bad: "\<not> (1 \<le> max_batch_size p \<and> 1 \<le> mpl \<and> mpl \<le> msl - 1 \<and> 1 \<le> mnt \<and> mnt \<le> msl - 1
            \<and> min_out \<le> mol \<and> mol \<le> msl)"
  shows "\<exists>prop v mn mx. (prop, mn, mx) \<in> set (bounds_table min_out msl) \<and> getattr_profile p prop = Some v
           \<and> (v < mn \<and> check_ranges p (bounds_table min_out msl) = Some (ValueError (invalid_ge v prop mn))
              \<or> (\<exists>m. mx = Some m \<and> m < v
                   \<and> check_ranges p (bounds_table min_out msl) = Some (ValueError (invalid_le v prop m))))"
    (is "\<exists>prop v mn mx. ?Q prop v mn mx")
proof -
  note F = check_ranges_first [OF P N M, of min_out msl]
  note G = getattr_profile_simps P N M
  show ?thesis
  proof (cases "max_batch_size p < 1")
    case True
    have "?Q ''max_batch_size'' (max_batch_size p) (1) (None)"
      using True F G by (simp add: bounds_table_def)
    then show ?thesis by blast
  next
    case n0: False
    show ?thesis
    proof (cases "mpl < 1")
      case True
      have "?Q ''max_prompt_length'' (mpl) (1) (Some (msl - 1))"
        using True n0 F G by (simp add: bounds_table_def)
      then show ?thesis by blast
    next
      case n1: False
      show ?thesis
      proof (cases "msl - 1 < mpl")
        case True
        have "?Q ''max_prompt_length'' (mpl) (1) (Some (msl - 1))"
          using True n0 n1 F G by (simp add: bounds_table_def)
        then show ?thesis by blast
      next
        case n2: False
        show ?thesis
        proof (cases "mnt < 1")
          case True
          have "?Q ''max_new_tokens'' (mnt) (1) (Some (msl - 1))"
            using True n0 n1 n2 F G by (simp add: bounds_table_def)
          then show ?thesis by blast
        next
          case n3: False
          show ?thesis
          proof (cases "msl - 1 < mnt")
            case True
            have "?Q ''max_new_tokens'' (mnt) (1) (Some (msl - 1))"
              using True n0 n1 n2 n3 F G by (simp add: bounds_table_def)
            then show ?thesis by blast
          next
            case n4: False
            show ?thesis
            proof (cases "mol < min_out")
              case True
              have "?Q ''max_output_length'' (mol) (min_out) (Some msl)"
                using True n0 n1 n2 n3 n4 F G by (simp add: bounds_table_def)
              then show ?thesis by blast
            next
              case n5: False
              show ?thesis
              proof (cases "msl < mol")
                case True
                have "?Q ''max_output_length'' (mol) (min_out) (Some msl)"
                  using True n0 n1 n2 n3 n4 n5 F G by (simp add: bounds_table_def)
                then show ?thesis by blast
              next
                case n6: False
                show ?thesis using bad n0 n1 n2 n3 n4 n5 n6 by simp
              qed
            qed
          qed
        qed
      qed
    qed
  qed
qed


lemma check_ranges_table:
  "check_ranges p (bounds_table min_out msl) = None \<longleftrightarrow>
     (\<exists>mpl mnt mol. max_prompt_length p = Some mpl \<and> max_new_tokens p = Some mnt \<and> max_output_length p = Some mol
        \<and> 1 \<le> max_batch_size p \<and> 1 \<le> mpl \<and> mpl \<le> msl - 1 \<and> 1 \<le> mnt \<and> mnt \<le> msl - 1
        \<and> min_out \<le> mol \<and> mol \<le> msl)"
  by (auto simp: bounds_table_def check_prop_def getattr_profile_def split: option.splits)

lemma validate_no_profile:
  "optimization_profile b = None \<Longrightarrow> fst (validate b) = Inl (ValueError no_profile_message)"
  by (simp add: validate_def)

lemma validate_never_False: "fst (validate b) \<noteq> Inr False"
  by (auto simp: validate_def Let_def split: option.splits sum.splits prod.splits if_splits)

lemma validate_with_ints:
  assumes "optimization_profile b = Some p"
    and "max_prompt_length p = Some mpl" and "max_new_tokens p = Some mnt"
    and "model_config b ''max_position_embeddings'' = Some (PyInt msl)"
  shows "fst (validate b) =
           (case check_ranges p (bounds_table (mpl + mnt) msl) of
              Some e \<Rightarrow> Inl e | None \<Rightarrow> Inr True)"
  using assms
  by (auto simp: validate_def Let_def getitem_def split: option.splits sum.splits prod.splits if_splits)

text \<open>
  The warning that announces a truncation of \<^verbatim>\<open>max_new_tokens\<close> is never logged: the
  bounds on \<^verbatim>\<open>max_output_length\<close> have already rejected every profile that would
  reach it.
\<close>

lemma validate_never_truncates: "WarnTruncating x y z t \<notin> set (snd (snd (validate b)))"
  by (auto simp: validate_def Let_def check_ranges_table split: option.splits sum.splits prod.splits if_splits)

text \<open>
  C1. With \<^verbatim>\<open>max_position_embeddings = 120\<close> and the profile
  \<^verbatim>\<open>with_generation_profile(1, 100, 50)\<close>, the claim expects \<^verbatim>\<open>validate\<close> to succeed with
  a warning and to cut \<^verbatim>\<open>max_new_tokens\<close> to 20. The source raises instead: the
  defaulted \<^verbatim>\<open>max_output_length\<close> is 150, above the bound 120, and the profile keeps
  its 50 new tokens.
\<close>

theorem validate_120_100_50_rejected:
  "validate (with_generation_profile builder120 1 (Some 100) (Some 50) None) =
     (Inl (ValueError ''Invalid value (150) for max_output_length. Needs to be <= 120''),
      (with_generation_profile builder120 1 (Some 100) (Some 50) None)\<lparr>qconfig := QPair 0 0\<rparr>,
      [WarnNoQuantization])
   \<and> optimization_profile (with_generation_profile builder120 1 (Some 100) (Some 50) None) =
       Some \<lparr>max_batch_size = 1, max_prompt_length = Some 100, max_new_tokens = Some 50,
             max_output_length = Some 150\<rparr>"
  by (simp add: validate_def with_generation_profile_def builder120_def config120_def getitem_def
      bounds_table_def check_prop_def getattr_profile_def invalid_le_def str_int_def str_nat.simps
      digit_char_def)

lemma validate_unset_length:
  assumes "optimization_profile b = Some p"
    and "model_config b ''max_position_embeddings'' = Some (PyInt msl)"
    and "max_prompt_length p = None \<or> max_new_tokens p = None"
  shows "fst (validate b) = Inl TypeError"
  using assms
  by (cases "max_prompt_length p"; cases "max_new_tokens p")
     (auto simp: validate_def Let_def getitem_def)

lemma validate_unset_output_length:
  assumes "optimization_profile b = Some p"
    and "model_config b ''max_position_embeddings'' = Some (PyInt msl)"
    and "max_prompt_length p = Some mpl" and "max_new_tokens p = Some mnt"
    and "max_output_length p = None"
    and "1 \<le> max_batch_size p" and "1 \<le> mpl" and "mpl \<le> msl - 1" and "1 \<le> mnt" and "mnt \<le> msl - 1"
  shows "fst (validate b) = Inl TypeError"
  using assms
  by (simp add: validate_def Let_def getitem_def bounds_table_def check_prop_def getattr_profile_def)

lemma validate_without_positions:
  assumes "optimization_profile b = Some p"
    and "model_config b ''max_position_embeddings'' = None"
  shows "fst (validate b) = Inl (KeyError ''max_position_embeddings'')"
  using assms by (auto simp: validate_def Let_def getitem_def)

text \<open>
  C5. The claim has every out-of-bound field reported by a \<^verbatim>\<open>ValueError\<close> that names
  it, a batch size of 0 for example. \<^verbatim>\<open>with_generation_profile(0)\<close> stores a batch size
  of 0 and leaves the three lengths \<^verbatim>\<open>None\<close>; \<^verbatim>\<open>validate\<close> then raises \<^verbatim>\<open>TypeError\<close>
  while it builds the list of bounds, before the batch size is compared.
\<close>

theorem validate_unset_lengths_TypeError:
  "optimization_profile (with_generation_profile builder120 0 None None None) =
     Some \<lparr>max_batch_size = 0, max_prompt_length = None, max_new_tokens = None,
           max_output_length = None\<rparr>
   \<and> (0::int) < 1
   \<and> fst (validate (with_generation_profile builder120 0 None None None)) = Inl TypeError"
  by (simp add: validate_def with_generation_profile_def builder120_def config120_def getitem_def)

text \<open>
  C5, amended. \<^verbatim>\<open>validate\<close> raises \<^verbatim>\<open>ValueError\<close> when no profile is set. For a profile
  whose three lengths are integers and a model with an integer
  \<^verbatim>\<open>max_position_embeddings\<close>, when some field is outside its bound the call raises a
  \<^verbatim>\<open>ValueError\<close> whose message names a field of the table, together with the value of
  that field and the bound it breaks. A batch size below one is reported under its
  name with the bound \<^verbatim>\<open>>= 1\<close> as soon as \<^verbatim>\<open>max_prompt_length\<close> and \<^verbatim>\<open>max_new_tokens\<close>
  are integers. No run returns \<^verbatim>\<open>False\<close>.
\<close>

theorem validate_raises_or_returns_True:
  "(optimization_profile b = None \<longrightarrow> fst (validate b) = Inl (ValueError no_profile_message))
   \<and> (optimization_profile b = Some p \<and> max_prompt_length p = Some mpl \<and> max_new_tokens p = Some mnt
        \<and> max_output_length p = Some mol
        \<and> model_config b ''max_position_embeddings'' = Some (PyInt msl)
        \<and> \<not> (1 \<le> max_batch_size p \<and> 1 \<le> mpl \<and> mpl \<le> msl - 1 \<and> 1 \<le> mnt \<and> mnt \<le> msl - 1
               \<and> mpl + mnt \<le> mol \<and> mol \<le> msl)
      \<longrightarrow> (\<exists>prop v mn mx. (prop, mn, mx) \<in> set (bounds_table (mpl + mnt) msl)
               \<and> getattr_profile p prop = Some v
               \<and> (v < mn \<and> fst (validate b) = Inl (ValueError (invalid_ge v prop mn))
                  \<or> (\<exists>m. mx = Some m \<and> m < v
                        \<and> fst (validate b) = Inl (ValueError (invalid_le v prop m))))))
   \<and> (optimization_profile b = Some p \<and> max_prompt_length p = Some mpl \<and> max_new_tokens p = Some mnt
        \<and> model_config b ''max_position_embeddings'' = Some (PyInt msl)
        \<and> max_batch_size p < 1
      \<longrightarrow> fst (validate b) = Inl (ValueError (invalid_ge (max_batch_size p) ''max_batch_size'' 1)))
   \<and> fst (validate b) \<noteq> Inr False"
proof (intro conjI impI)
  assume "optimization_profile b = None"
  then show "fst (validate b) = Inl (ValueError no_profile_message)"
    by (rule validate_no_profile)
next
  assume H: "optimization_profile b = Some p \<and> max_prompt_length p = Some mpl \<and> max_new_tokens p = Some mnt
        \<and> max_output_length p = Some mol
        \<and> model_config b ''max_position_embeddings'' = Some (PyInt msl)
        \<and> \<not> (1 \<le> max_batch_size p \<and> 1 \<le> mpl \<and> mpl \<le> msl - 1 \<and> 1 \<le> mnt \<and> mnt \<le> msl - 1
               \<and> mpl + mnt \<le> mol \<and> mol \<le> msl)"
  then have V: "fst (validate b) =
      (case check_ranges p (bounds_table (mpl + mnt) msl) of Some e \<Rightarrow> Inl e | None \<Rightarrow> Inr True)"
    by (intro validate_with_ints) simp_all
  from H obtain fld v mn mx where
    Q: "(fld, mn, mx) \<in> set (bounds_table (mpl + mnt) msl)" "getattr_profile p fld = Some v"
       "v < mn \<and> check_ranges p (bounds_table (mpl + mnt) msl) = Some (ValueError (invalid_ge v fld mn))
        \<or> (\<exists>m. mx = Some m \<and> m < v
              \<and> check_ranges p (bounds_table (mpl + mnt) msl) = Some (ValueError (invalid_le v fld m)))"
    using check_ranges_names_field [of p mpl mnt mol msl "mpl + mnt"] by blast
  from Q(3) have "v < mn \<and> fst (validate b) = Inl (ValueError (invalid_ge v fld mn))
        \<or> (\<exists>m. mx = Some m \<and> m < v \<and> fst (validate b) = Inl (ValueError (invalid_le v fld m)))"
    using V by auto
  with Q(1,2) show "\<exists>prop v mn mx. (prop, mn, mx) \<in> set (bounds_table (mpl + mnt) msl)
               \<and> getattr_profile p prop = Some v
               \<and> (v < mn \<and> fst (validate b) = Inl (ValueError (invalid_ge v prop mn))
                  \<or> (\<exists>m. mx = Some m \<and> m < v
                        \<and> fst (validate b) = Inl (ValueError (invalid_le v prop m))))"
    by blast
next
  assume H: "optimization_profile b = Some p \<and> max_prompt_length p = Some mpl \<and> max_new_tokens p = Some mnt
        \<and> model_config b ''max_position_embeddings'' = Some (PyInt msl)
        \<and> max_batch_size p < 1"
  then have "fst (validate b) =
      (case check_ranges p (bounds_table (mpl + mnt) msl) of Some e \<Rightarrow> Inl e | None \<Rightarrow> Inr True)"
    by (intro validate_with_ints) simp_all
  moreover have "check_ranges p (bounds_table (mpl + mnt) msl) =
      Some (ValueError (invalid_ge (max_batch_size p) ''max_batch_size'' 1))"
    using H by (simp add: bounds_table_def check_prop_def getattr_profile_def)
  ultimately show "fst (validate b) = Inl (ValueError (invalid_ge (max_batch_size p) ''max_batch_size'' 1))"
    by simp
next
  show "fst (validate b) \<noteq> Inr False" by (rule validate_never_False)
qed

theorem validate_raises_or_returns_True_witness:
  "optimization_profile builder120 = None
   \<and> fst (validate builder120) = Inl (ValueError no_profile_message)
   \<and> optimization_profile (with_generation_profile builder120 0 (Some 10) (Some 20) None) =
       Some \<lparr>max_batch_size = 0, max_prompt_length = Some 10, max_new_tokens = Some 20,
             max_output_length = Some 30\<rparr>
   \<and> model_config (with_generation_profile builder120 0 (Some 10) (Some 20) None)
        ''max_position_embeddings'' = Some (PyInt 120)
   \<and> fst (validate (with_generation_profile builder120 0 (Some 10) (Some 20) None)) =
       Inl (ValueError ''Invalid value (0) for max_batch_size. Needs to be >= 1'')"
  using validate_raises_or_returns_True [where b = builder120]
    validate_raises_or_returns_True [where b = "with_generation_profile builder120 0 (Some 10) (Some 20) None"
      and p = "\<lparr>max_batch_size = 0, max_prompt_length = Some 10, max_new_tokens = Some 20,
                max_output_length = Some 30\<rparr>"
      and mpl = 10 and mnt = 20 and mol = 30 and msl = 120]
  by (simp add: with_generation_profile_def builder120_def config120_def invalid_ge_def str_int_def
      str_nat.simps digit_char_def)

text \<open>
  C9. A call of \<^verbatim>\<open>with_generation_profile\<close> that gives both lengths and leaves
  \<^verbatim>\<open>max_output_length\<close> out stores their sum. As stated, with only
  \<^verbatim>\<open>max_prompt_length + max_new_tokens \<le> max_sequence_length\<close> and a batch size of at
  least one, \<^verbatim>\<open>validate\<close> need not succeed: a prompt length of 0 is rejected.
\<close>

theorem generation_profile_zero_prompt_rejected:
  "optimization_profile (with_generation_profile builder120 1 (Some 0) (Some 5) None) =
     Some \<lparr>max_batch_size = 1, max_prompt_length = Some 0, max_new_tokens = Some 5,
           max_output_length = Some (0 + 5)\<rparr>
   \<and> model_config builder120 ''max_position_embeddings'' = Some (PyInt 120)
   \<and> (0::int) + 5 \<le> 120 \<and> (1::int) \<le> 1
   \<and> fst (validate (with_generation_profile builder120 1 (Some 0) (Some 5) None)) =
       Inl (ValueError ''Invalid value (0) for max_prompt_length. Needs to be >= 1'')"
  by (simp add: validate_def with_generation_profile_def builder120_def config120_def getitem_def
      bounds_table_def check_prop_def getattr_profile_def invalid_ge_def str_int_def str_nat.simps
      digit_char_def)

text \<open>
  C9, amended. Every call that gives both lengths and leaves \<^verbatim>\<open>max_output_length\<close> out
  stores their sum. When, in addition, the batch size and the two lengths are at least
  one and the sum is at most the model's \<^verbatim>\<open>max_position_embeddings\<close>, \<^verbatim>\<open>validate\<close>
  returns \<^verbatim>\<open>True\<close>.
\<close>

theorem generation_profile_validates:
  "optimization_profile (with_generation_profile b mbs (Some mpl) (Some mnt) None) =
     Some \<lparr>max_batch_size = mbs, max_prompt_length = Some mpl, max_new_tokens = Some mnt,
           max_output_length = Some (mpl + mnt)\<rparr>
   \<and> (model_config b ''max_position_embeddings'' = Some (PyInt msl)
        \<and> 1 \<le> mbs \<and> 1 \<le> mpl \<and> 1 \<le> mnt \<and> mpl + mnt \<le> msl
      \<longrightarrow> fst (validate (with_generation_profile b mbs (Some mpl) (Some mnt) None)) = Inr True)"
proof (intro conjI impI)
  let ?b = "with_generation_profile b mbs (Some mpl) (Some mnt) None"
  let ?p = "\<lparr>max_batch_size = mbs, max_prompt_length = Some mpl, max_new_tokens = Some mnt,
             max_output_length = Some (mpl + mnt)\<rparr>"
  show prof: "optimization_profile ?b = Some ?p"
    by (simp add: with_generation_profile_def)
  assume H: "model_config b ''max_position_embeddings'' = Some (PyInt msl)
        \<and> 1 \<le> mbs \<and> 1 \<le> mpl \<and> 1 \<le> mnt \<and> mpl + mnt \<le> msl"
  then have cfg: "model_config ?b ''max_position_embeddings'' = Some (PyInt msl)"
    by (simp add: with_generation_profile_def)
  have "check_ranges ?p (bounds_table (mpl + mnt) msl) = None"
    using H by (simp add: check_ranges_table)
  then show "fst (validate ?b) = Inr True"
    using validate_with_ints [OF prof _ _ cfg, of mpl mnt] by simp
qed

theorem generation_profile_validates_witness:
  "optimization_profile (with_generation_profile builder120 1 (Some 0) (Some 5) None) =
     Some \<lparr>max_batch_size = 1, max_prompt_length = Some 0, max_new_tokens = Some 5,
           max_output_length = Some 5\<rparr>
   \<and> model_config builder120 ''max_position_embeddings'' = Some (PyInt 120)
   \<and> (1::int) \<le> 2 \<and> (1::int) \<le> 100 \<and> (1::int) \<le> 20 \<and> (100::int) + 20 \<le> 120
   \<and> optimization_profile (with_generation_profile builder120 2 (Some 100) (Some 20) None) =
       Some \<lparr>max_batch_size = 2, max_prompt_length = Some 100, max_new_tokens = Some 20,
             max_output_length = Some 120\<rparr>
   \<and> fst (validate (with_generation_profile builder120 2 (Some 100) (Some 20) None)) = Inr True"
  using generation_profile_validates [where b = builder120 and msl = 120 and mbs = 2 and mpl = 100 and mnt = 20]
    generation_profile_validates [where b = builder120 and msl = 120 and mbs = 1 and mpl = 0 and mnt = 5]
  by (simp add: builder120_def config120_def)

section \<open>Properties of the quantization settings\<close>

lemma validate_qconfig_default:
  "qconfig b = QNone \<Longrightarrow> qconfig (fst (snd (validate b))) = QPair 0 0"
  by (auto simp: validate_def Let_def split: option.splits sum.splits prod.splits if_splits)

lemma validate_keeps_config: "model_config (fst (snd (validate b))) = model_config b"
  by (auto simp: validate_def Let_def split: option.splits sum.splits prod.splits if_splits)

lemma create_builder_config_pair:
  assumes "qconfig b = QPair m k" and "model_config b ''model_type'' = Some mt"
  shows "create_builder_config ext b shd par opt = Inl AttributeError"
  using assms by (simp add: create_builder_config_def bind_err_def getitem_def)

lemma build_engine_for_rank_pair:
  assumes "qconfig b = QPair m k" and "model_config b ''model_type'' = Some mt"
  shows "build_engine_for_rank ext b shd out opt par w = (Inl AttributeError, w)"
  using assms create_builder_config_pair [OF assms]
  by (simp add: build_engine_for_rank_def getitem_def)

text \<open>
  C6. After \<^verbatim>\<open>validate\<close> has run on a builder without a quantization mode, the field
  \<^verbatim>\<open>_qconfig\<close> holds the pair \<^verbatim>\<open>(QuantMode(0), 0)\<close>, not a \<^verbatim>\<open>QuantMode\<close>. For a model
  configuration that has a \<^verbatim>\<open>model_type\<close>, \<^verbatim>\<open>create_builder_config\<close> then reaches
  \<^verbatim>\<open>qconfig.has_fp8_qdq()\<close> and raises \<^verbatim>\<open>AttributeError\<close>, and so does the build step of
  every shard, before anything is loaded or written.
\<close>

theorem validate_default_qconfig_breaks_build:
  assumes "qconfig b = QNone" and "model_config b ''model_type'' = Some mt"
  shows "qconfig (fst (snd (validate b))) = QPair 0 0
         \<and> create_builder_config ext (fst (snd (validate b))) shd par opt = Inl AttributeError
         \<and> build_engine_for_rank ext (fst (snd (validate b))) shd out opt par w = (Inl AttributeError, w)"
proof -
  have q: "qconfig (fst (snd (validate b))) = QPair 0 0"
    using assms(1) by (rule validate_qconfig_default)
  have c: "model_config (fst (snd (validate b))) ''model_type'' = Some mt"
    using assms(2) by (simp add: validate_keeps_config)
  show ?thesis
    using q create_builder_config_pair [OF q c] build_engine_for_rank_pair [OF q c] by simp
qed

theorem validate_default_qconfig_breaks_build_witness:
  "qconfig (with_generation_profile builder120 1 (Some 100) (Some 20) None) = QNone
   \<and> model_config (with_generation_profile builder120 1 (Some 100) (Some 20) None) ''model_type'' =
       Some (PyStr ''llama'')
   \<and> fst (validate (with_generation_profile builder120 1 (Some 100) (Some 20) None)) = Inr True
   \<and> qconfig (fst (snd (validate (with_generation_profile builder120 1 (Some 100) (Some 20) None)))) = QPair 0 0
   \<and> create_builder_config stub_ext
        (fst (snd (validate (with_generation_profile builder120 1 (Some 100) (Some 20) None))))
        shard0 False None = Inl AttributeError
   \<and> build_engine_for_rank stub_ext
        (fst (snd (validate (with_generation_profile builder120 1 (Some 100) (Some 20) None))))
        shard0 [''out''] None False world0 = (Inl AttributeError, world0)"
proof -
  let ?b = "with_generation_profile builder120 1 (Some 100) (Some 20) None"
  have q: "qconfig ?b = QNone"
    by (simp add: with_generation_profile_def builder120_def)
  have c: "model_config ?b ''model_type'' = Some (PyStr ''llama'')"
    by (simp add: with_generation_profile_def builder120_def config120_def)
  have v: "fst (validate ?b) = Inr True"
    by (simp add: validate_def with_generation_profile_def builder120_def config120_def getitem_def
        bounds_table_def check_prop_def getattr_profile_def)
  show ?thesis
    using q c v validate_default_qconfig_breaks_build [OF q c, of stub_ext shard0 False None "[''out'']" world0]
    by simp
qed

text \<open>
  C8. When the mode asks for fp8 (qdq or kv-cache) and the hardware reports no float8
  support, \<^verbatim>\<open>with_quantization_profile\<close> raises \<^verbatim>\<open>UnsupportedHardwareFeature\<close>; the files are
  untouched and no model has been loaded on the way. In every other case the mode and
  the calibration are stored and the builder is returned.
\<close>

theorem with_quantization_profile_float8:
  "((has_fp8_qdq ext mode \<or> has_fp8_kv_cache ext mode) \<and> \<not> has_float8_support ext \<longrightarrow>
      fst (with_quantization_profile ext b mode calib w) = Inl UnsupportedHardwareFeature
      \<and> fs (snd (with_quantization_profile ext b mode calib w)) = fs w
      \<and> filter is_load (events (snd (with_quantization_profile ext b mode calib w))) = filter is_load (events w))
   \<and> (\<not> ((has_fp8_qdq ext mode \<or> has_fp8_kv_cache ext mode) \<and> \<not> has_float8_support ext) \<longrightarrow>
      fst (with_quantization_profile ext b mode calib w) =
        Inr (b\<lparr>qconfig := QMode mode, quantization_calibration := calib\<rparr>))"
  by (simp add: with_quantization_profile_def Let_def log_event_def)

theorem with_quantization_profile_float8_witness:
  "has_fp8_qdq stub_ext 256 \<and> \<not> has_float8_support stub_ext
   \<and> with_quantization_profile stub_ext builder120 256 None world0 =
       (Inl UnsupportedHardwareFeature, \<lparr>fs = fs world0, events = [EvFloat8Query]\<rparr>)
   \<and> \<not> has_fp8_qdq stub_ext 2 \<and> \<not> has_fp8_kv_cache stub_ext 2
   \<and> fst (with_quantization_profile stub_ext builder120 2 (Some ''dataset'') world0) =
       Inr (builder120\<lparr>qconfig := QMode 2, quantization_calibration := Some ''dataset''\<rparr>)"
  using with_quantization_profile_float8 [of stub_ext 256 builder120 None world0]
    with_quantization_profile_float8 [of stub_ext 2 builder120 "Some ''dataset''" world0]
  by (simp add: stub_ext_def with_quantization_profile_def log_event_def world0_def)

section \<open>Properties of the pipeline factory\<close>

text \<open>
  C4, amended. With the model type that \<^verbatim>\<open>AutoConfig\<close> resolves: a type that is not
  registered raises \<^verbatim>\<open>NotImplementedError\<close> with a message that names the type only; a
  registered type with a task that is not registered for it raises \<^verbatim>\<open>ValueError\<close> with
  a message that names the task and the type and lists no task.
\<close>

theorem pipeline_unsupported:
  assumes "auto_config_model_type h m = Inr mt"
  shows "(map_of SUPPORTED_MODEL_WITH_TASKS mt = None \<longrightarrow>
            pipeline h task m tok =
              Inl (NotImplementedError (''Model type '' @ mt @ '' is not currently supported'')))
         \<and> (map_of SUPPORTED_MODEL_WITH_TASKS mt = Some tasks \<and> map_of tasks task = None \<longrightarrow>
            pipeline h task m tok =
              Inl (ValueError (''Task '' @ task @ '' is not supported yet for '' @ mt @ ''.'')))"
  using assms by (simp add: pipeline_def)

theorem pipeline_unsupported_witness:
  "auto_config_model_type stub_hub (ModelPath ''some-gpt2-checkpoint'') = Inr ''gpt2''
   \<and> map_of SUPPORTED_MODEL_WITH_TASKS ''gpt2'' = None
   \<and> pipeline stub_hub ''text-generation'' (ModelPath ''some-gpt2-checkpoint'') None =
       Inl (NotImplementedError ''Model type gpt2 is not currently supported'')
   \<and> auto_config_model_type stub_hub (ModelPath ''some-llama-checkpoint'') = Inr ''llama''
   \<and> map_of SUPPORTED_MODEL_WITH_TASKS ''llama'' =
       Some [(''text-generation'', (TextGenerationPipeline, AutoModelForCausalLM))]
   \<and> map_of [(''text-generation'', (TextGenerationPipeline, AutoModelForCausalLM))] ''fill-mask'' = None
   \<and> pipeline stub_hub ''fill-mask'' (ModelPath ''some-llama-checkpoint'') None =
       Inl (ValueError ''Task fill-mask is not supported yet for llama.'')"
proof -
  have g: "auto_config_model_type stub_hub (ModelPath ''some-gpt2-checkpoint'') = Inr ''gpt2''"
    by (simp add: stub_hub_def)
  have l: "auto_config_model_type stub_hub (ModelPath ''some-llama-checkpoint'') = Inr ''llama''"
    by (simp add: stub_hub_def)
  show ?thesis
    using g l
      pipeline_unsupported [OF g, where task = "''text-generation''" and tok = None]
      pipeline_unsupported [OF l, where task = "''fill-mask''" and tok = None
        and tasks = "[(''text-generation'', (TextGenerationPipeline, AutoModelForCausalLM))]"]
    by (simp add: SUPPORTED_MODEL_WITH_TASKS_def)
qed

text \<open>
  C4. The claim expects a ``not implemented'' error that lists the supported tasks when
  the type is registered and the task is not. For a llama checkpoint and the task
  \<^verbatim>\<open>fill-mask\<close> the source raises \<^verbatim>\<open>ValueError\<close>, and its message lists nothing.
\<close>

theorem pipeline_unregistered_task_is_ValueError:
  "auto_config_model_type stub_hub (ModelPath ''some-llama-checkpoint'') = Inr ''llama''
   \<and> map_of SUPPORTED_MODEL_WITH_TASKS ''llama'' \<noteq> None
   \<and> pipeline stub_hub ''fill-mask'' (ModelPath ''some-llama-checkpoint'') None =
       Inl (ValueError ''Task fill-mask is not supported yet for llama.'')
   \<and> pipeline stub_hub ''fill-mask'' (ModelPath ''some-llama-checkpoint'') None \<noteq>
       Inl (NotImplementedError ''Task fill-mask is not supported yet for llama.'')"
  by (simp add: pipeline_def stub_hub_def SUPPORTED_MODEL_WITH_TASKS_def)

lemma pipeline_registered:
  "pipeline stub_hub ''text-generation'' (ModelPath ''some-llama-checkpoint'') None =
     Inr \<lparr>pipeline_factory = TextGenerationPipeline, pipeline_model = ''model'',
          pipeline_tokenizer = ''tokenizer''\<rparr>"
  by (simp add: pipeline_def stub_hub_def SUPPORTED_MODEL_WITH_TASKS_def)

section \<open>Properties of the calibration cache\<close>

text \<open>
  C7. \<^verbatim>\<open>quantize\<close> with a calibration dataset. When the calibration path is a directory
  whose listing has exactly two names, one ending in \<^verbatim>\<open>.json\<close> and one in
  \<^verbatim>\<open>.safetensors\<close>, nothing is loaded or calibrated: the world is returned as it was and
  the quantized path is set. When the path does not exist, or no name ends in
  \<^verbatim>\<open>.json\<close>, or none in \<^verbatim>\<open>.safetensors\<close>, the next call is the load of the source model;
  and when the loader and the calibrator return, the calibration is saved and the
  quantized path is set as well.
\<close>

theorem quantize_reuses_or_recalibrates:
  assumes "quantization_calibration b = Some calib"
  shows "(is_dir (fs w) (joinpath out ''calibration'')
            \<and> listdir (fs w) (joinpath out ''calibration'') = [f, g]
            \<and> (endswith f ''.json'' \<and> endswith g ''.safetensors''
                 \<or> endswith f ''.safetensors'' \<and> endswith g ''.json'')
          \<longrightarrow> quantize ext b out w =
                (Inr (),
                 b\<lparr>build_info := \<lparr>parallel = parallel (build_info b),
                                    num_parallel_jobs = num_parallel_jobs (build_info b),
                                    quantized_path = Some (joinpath out ''calibration'')\<rparr>\<rparr>,
                 w))
         \<and> (\<not> path_exists (fs w) (joinpath out ''calibration'')
              \<or> \<not> list_ex (\<lambda>f. endswith f ''.json'') (listdir (fs w) (joinpath out ''calibration''))
              \<or> \<not> list_ex (\<lambda>f. endswith f ''.safetensors'') (listdir (fs w) (joinpath out ''calibration''))
          \<longrightarrow> (\<exists>rest. events (snd (snd (quantize ext b out w))) =
                         events w @ EvLoadPretrained (model_id_or_path b) # rest)
              \<and> (hf_from_pretrained ext (model_id_or_path b) (dtype b) = Inr hf
                      \<and> ammo_calibrate ext hf (qconfig b) (dtype b) (tp_degree (sharding_info b)) calib = Inr q
                    \<longrightarrow> quantize ext b out w =
                          (Inr (),
                           b\<lparr>build_info := \<lparr>parallel = parallel (build_info b),
                                              num_parallel_jobs = num_parallel_jobs (build_info b),
                                              quantized_path = Some (joinpath out ''calibration'')\<rparr>\<rparr>,
                           \<lparr>fs = ammo_save ext q (joinpath out ''calibration'') (fs w),
                            events = events w @ [EvLoadPretrained (model_id_or_path b), EvCalibrate calib,
                                                 EvQuantizerSave (joinpath out ''calibration'')]\<rparr>)))"
proof -
  let ?cp = "joinpath out ''calibration''"
  let ?b' = "b\<lparr>build_info := \<lparr>parallel = parallel (build_info b),
                                 num_parallel_jobs = num_parallel_jobs (build_info b),
                                 quantized_path = Some ?cp\<rparr>\<rparr>"
  let ?miss = "\<not> path_exists (fs w) ?cp
              \<or> \<not> list_ex (\<lambda>f. endswith f ''.json'') (listdir (fs w) ?cp)
              \<or> \<not> list_ex (\<lambda>f. endswith f ''.safetensors'') (listdir (fs w) ?cp)"
  have hit: "quantize ext b out w = (Inr (), ?b', w)"
    if "is_dir (fs w) ?cp \<and> listdir (fs w) ?cp = [f, g]
          \<and> (endswith f ''.json'' \<and> endswith g ''.safetensors''
               \<or> endswith f ''.safetensors'' \<and> endswith g ''.json'')"
  proof -
    from that have "path_exists (fs w) ?cp"
      by (simp add: is_dir_def path_exists_def)
    with that assms show ?thesis
      by (auto simp: quantize_def Let_def)
  qed
  have Q: "quantize ext b out w =
      (case calibrate_model ext b calib ?cp w of
         (Inl e, w') \<Rightarrow> (Inl e, b, w')
       | (Inr u, w') \<Rightarrow> (Inr (), ?b', w'))" if ?miss
    using that assms by (auto simp: quantize_def Let_def)
  have ev: "\<exists>rest. events (snd (snd (quantize ext b out w))) =
                         events w @ EvLoadPretrained (model_id_or_path b) # rest" if ?miss
    unfolding Q [OF that] by (auto simp: calibrate_model_def Let_def log_event_def split: sum.splits)
  have ok: "quantize ext b out w =
      (Inr (), ?b',
       \<lparr>fs = ammo_save ext q ?cp (fs w),
        events = events w @ [EvLoadPretrained (model_id_or_path b), EvCalibrate calib,
                             EvQuantizerSave ?cp]\<rparr>)"
    if ?miss and "hf_from_pretrained ext (model_id_or_path b) (dtype b) = Inr hf
        \<and> ammo_calibrate ext hf (qconfig b) (dtype b) (tp_degree (sharding_info b)) calib = Inr q"
    unfolding Q [OF that(1)] using that(2)
    by (simp add: calibrate_model_def Let_def log_event_def)
  show ?thesis
    using hit ev ok by blast
qed

lemma listdir_cached: "listdir (fs world_cached) [''out'', ''calibration''] = [''config.json'', ''model.safetensors'']"
  by (simp add: listdir_def world_cached_def)

theorem quantize_reuses_or_recalibrates_witness:
  "quantization_calibration calibrating_builder = Some ''dataset''
   \<and> is_dir (fs world_cached) [''out'', ''calibration'']
   \<and> listdir (fs world_cached) [''out'', ''calibration''] = [''config.json'', ''model.safetensors'']
   \<and> endswith ''config.json'' ''.json'' \<and> endswith ''model.safetensors'' ''.safetensors''
   \<and> snd (snd (quantize stub_ext calibrating_builder [''out''] world_cached)) = world_cached
   \<and> quantized_path (build_info (fst (snd (quantize stub_ext calibrating_builder [''out''] world_cached)))) =
       Some [''out'', ''calibration'']
   \<and> \<not> path_exists (fs world0) [''out'', ''calibration'']
   \<and> events (snd (snd (quantize stub_ext calibrating_builder [''out''] world0))) =
       [EvLoadPretrained ''llama-checkpoint'', EvCalibrate ''dataset'', EvQuantizerSave [''out'', ''calibration'']]
   \<and> quantized_path (build_info (fst (snd (quantize stub_ext calibrating_builder [''out''] world0)))) =
       Some [''out'', ''calibration'']"
proof -
  let ?cp = "joinpath [''out''] ''calibration''"
  have cp: "?cp = [''out'', ''calibration'']" by (simp add: joinpath_def)
  have c: "quantization_calibration calibrating_builder = Some ''dataset''"
    by (simp add: calibrating_builder_def)
  have d: "is_dir (fs world_cached) ?cp"
    by (simp add: is_dir_def world_cached_def joinpath_def)
  have l: "listdir (fs world_cached) ?cp = [''config.json'', ''model.safetensors'']"
    by (simp add: listdir_cached cp)
  have e: "endswith ''config.json'' ''.json''" "endswith ''model.safetensors'' ''.safetensors''"
    by (simp_all add: endswith_def)
  have n: "\<not> path_exists (fs world0) ?cp"
    by (simp add: path_exists_def world0_def joinpath_def)
  have h: "hf_from_pretrained stub_ext (model_id_or_path calibrating_builder) (dtype calibrating_builder)
             = Inr ''hf:llama-checkpoint''"
    by (simp add: stub_ext_def calibrating_builder_def ready_builder_def builder120_def
        with_generation_profile_def)
  have a: "ammo_calibrate stub_ext ''hf:llama-checkpoint'' (qconfig calibrating_builder)
             (dtype calibrating_builder) (tp_degree (sharding_info calibrating_builder)) ''dataset''
             = Inr ''quantized:hf:llama-checkpoint''"
    by (simp add: stub_ext_def)
  have m: "model_id_or_path calibrating_builder = ''llama-checkpoint''"
    by (simp add: calibrating_builder_def ready_builder_def builder120_def with_generation_profile_def)
  have hit: "quantize stub_ext calibrating_builder [''out''] world_cached =
      (Inr (),
       calibrating_builder\<lparr>build_info := \<lparr>parallel = parallel (build_info calibrating_builder),
          num_parallel_jobs = num_parallel_jobs (build_info calibrating_builder),
          quantized_path = Some ?cp\<rparr>\<rparr>, world_cached)"
    using quantize_reuses_or_recalibrates [OF c, of world_cached "[''out'']"
        "''config.json''" "''model.safetensors''" stub_ext] d l e
    by simp
  have miss: "quantize stub_ext calibrating_builder [''out''] world0 =
      (Inr (),
       calibrating_builder\<lparr>build_info := \<lparr>parallel = parallel (build_info calibrating_builder),
          num_parallel_jobs = num_parallel_jobs (build_info calibrating_builder),
          quantized_path = Some ?cp\<rparr>\<rparr>,
       \<lparr>fs = ammo_save stub_ext ''quantized:hf:llama-checkpoint'' ?cp (fs world0),
        events = events world0 @ [EvLoadPretrained (model_id_or_path calibrating_builder),
                                  EvCalibrate ''dataset'', EvQuantizerSave ?cp]\<rparr>)"
    using quantize_reuses_or_recalibrates [OF c, of world0 "[''out'']" _ _ stub_ext
        "''hf:llama-checkpoint''" "''quantized:hf:llama-checkpoint''"] n h a
    by blast
  show ?thesis
    using c d l e n unfolding hit miss cp m
    by (simp add: world0_def)
qed

section \<open>Properties of the build of one engine\<close>

lemmas stub_eval = build_engine_for_rank_def create_builder_config_def parallel_builder_def ready_builder_def
   builder120_def config120_def with_generation_profile_def onnx_ext_def no_engine_ext_def
   failing_loader_ext_def
   stub_ext_def shard0_def shard1_def bind_err_def getitem_def profile_attr_def
   create_unique_engine_name_def str_int_def str_nat.simps digit_char_def configure_network_def
   MODEL_TYPE_TO_TRT_IMPL_def load_weights_def prepare_inputs_def store_outputs_def joinpath_def Let_def

lemma map_of_write_file:
  "map_of (fs (write_file p data w)) = (map_of (fs w))(p \<mapsto> File data)"
  by (simp add: write_file_def update_conv')

lemma events_write_file: "events (write_file p data w) = events w @ [EvWrite p]"
  by (simp add: write_file_def)

lemma written_append: "written (xs @ ys) = written xs @ written ys"
  by (induction xs rule: written.induct) simp_all

lemma store_outputs_effect:
  "\<exists>new. events (snd (store_outputs ext b shd out name bc engine w)) = events w @ new
     \<and> written new =
          (if rank shd = 0
           then [joinpath out (CONFIG_NAME ext), joinpath out (TENSORRT_TIMINGS_FILE ext),
                 joinpath out (OPTIMUM_NVIDIA_CONFIG_FILE ext)]
           else [])
          @ (if fst (store_outputs ext b shd out name bc engine w) = Inr () then [joinpath out name] else [])
     \<and> (\<forall>p. p \<notin> set (written new) \<longrightarrow>
           map_of (fs (snd (store_outputs ext b shd out name bc engine w))) p = map_of (fs w) p)"
  by (cases engine)
     (simp_all add: store_outputs_def Let_def map_of_write_file events_write_file)

lemma load_weights_effect:
  "fs (snd (load_weights ext b shd bc ad w)) = fs w
   \<and> (\<exists>ev. events (snd (load_weights ext b shd bc ad w)) = events w @ [ev] \<and> is_load ev)"
  by (auto simp: load_weights_def log_event_def split: bool.splits option.splits)

lemma is_load_not_write: "is_load ev \<Longrightarrow> written [ev] = [] \<and> ev \<noteq> EvBuildEngine n"
  by (cases ev) simp_all

lemma build_engine_for_rank_stored:
  assumes "model_config b ''model_type'' = Some mt"
    and "create_builder_config ext b shd par opt = Inr bc"
    and "lookup_adapter mt = Inr ad"
    and "load_weights ext b shd bc ad w = (Inr model, w1)"
    and "prepare_inputs b = Inr inputs"
  shows "\<exists>engine data. build_engine_for_rank ext b shd out opt par w =
           store_outputs ext b shd out (create_unique_engine_name mt (dtype b) (rank shd) (tp_size shd))
             bc engine
             (log_event (EvBuildEngine (create_unique_engine_name mt (dtype b) (rank shd) (tp_size shd)))
                (if parse_flag_from_env ext ''OPTIMUM_NVIDIA_OUTPUT_ONNX_IR''
                 then write_file (joinpath out ''model.onnx'') data w1 else w1))"
  using assms by (auto simp: build_engine_for_rank_def getitem_def Let_def)

lemma build_engine_for_rank_cases:
  assumes mt: "model_config b ''model_type'' = Some mt"
  shows "(\<exists>e w' pre. build_engine_for_rank ext b shd out opt par w = (Inl e, w') \<and> fs w' = fs w
            \<and> events w' = events w @ pre \<and> written pre = []
            \<and> EvBuildEngine (create_unique_engine_name mt (dtype b) (rank shd) (tp_size shd)) \<notin> set pre)
       \<or> (\<exists>bc engine w3 pre.
            build_engine_for_rank ext b shd out opt par w =
              store_outputs ext b shd out (create_unique_engine_name mt (dtype b) (rank shd) (tp_size shd))
                bc engine w3
            \<and> events w3 = events w @ pre
            \<and> EvBuildEngine (create_unique_engine_name mt (dtype b) (rank shd) (tp_size shd)) \<in> set pre
            \<and> written pre = (if parse_flag_from_env ext ''OPTIMUM_NVIDIA_OUTPUT_ONNX_IR''
                              then [joinpath out ''model.onnx''] else [])
            \<and> (\<forall>p. p \<notin> set (written pre) \<longrightarrow> map_of (fs w3) p = map_of (fs w) p))"
    (is "?raised \<or> ?stored")
proof (cases "create_builder_config ext b shd par opt")
  case (Inl e)
  then have "build_engine_for_rank ext b shd out opt par w = (Inl e, w)"
    using mt by (simp add: build_engine_for_rank_def getitem_def Let_def)
  then have ?raised by simp
  then show ?thesis ..
next
  case bc: (Inr bc)
  show ?thesis
  proof (cases "lookup_adapter mt")
    case (Inl e)
    then have "build_engine_for_rank ext b shd out opt par w = (Inl e, w)"
      using mt bc by (simp add: build_engine_for_rank_def getitem_def Let_def)
    then have ?raised by simp
    then show ?thesis ..
  next
    case ad: (Inr ad)
    let ?name = "create_unique_engine_name mt (dtype b) (rank shd) (tp_size shd)"
    obtain r w1 where lw: "load_weights ext b shd bc ad w = (r, w1)"
      by (cases "load_weights ext b shd bc ad w")
    from load_weights_effect [of ext b shd bc ad w] lw
    obtain ev where w1: "fs w1 = fs w" "events w1 = events w @ [ev]" "is_load ev"
      by auto
    from is_load_not_write [OF w1(3), of ?name]
    have ev: "written [ev] = []" "ev \<noteq> EvBuildEngine ?name" by simp_all
    have early: ?raised if "build_engine_for_rank ext b shd out opt par w = (Inl e, w1)" for e
    proof -
      have "EvBuildEngine ?name \<notin> set [ev]" using ev(2) by simp
      with that w1 ev(1) show ?thesis by blast
    qed
    show ?thesis
    proof (cases r)
      case (Inl e)
      then have "build_engine_for_rank ext b shd out opt par w = (Inl e, w1)"
        using mt bc ad lw by (simp add: build_engine_for_rank_def getitem_def Let_def)
      then have ?raised by (rule early)
      then show ?thesis ..
    next
      case model: (Inr model)
      show ?thesis
      proof (cases "prepare_inputs b")
        case (Inl e)
        then have "build_engine_for_rank ext b shd out opt par w = (Inl e, w1)"
          using mt bc ad lw model by (simp add: build_engine_for_rank_def getitem_def Let_def)
        then have ?raised by (rule early)
        then show ?thesis ..
      next
        case (Inr inputs)
        let ?flag = "parse_flag_from_env ext ''OPTIMUM_NVIDIA_OUTPUT_ONNX_IR''"
        from build_engine_for_rank_stored [OF mt bc ad lw [unfolded model] Inr]
        obtain engine data where
          R: "build_engine_for_rank ext b shd out opt par w =
                store_outputs ext b shd out ?name bc engine
                  (log_event (EvBuildEngine ?name)
                     (if ?flag then write_file (joinpath out ''model.onnx'') data w1 else w1))"
          by blast
        let ?w3 = "log_event (EvBuildEngine ?name)
                     (if ?flag then write_file (joinpath out ''model.onnx'') data w1 else w1)"
        let ?pre = "[ev] @ (if ?flag then [EvWrite (joinpath out ''model.onnx'')] else [])
                      @ [EvBuildEngine ?name]"
        have e3: "events ?w3 = events w @ ?pre"
          using w1 by (simp add: log_event_def write_file_def)
        have m3: "EvBuildEngine ?name \<in> set ?pre" by simp
        have wr: "written ?pre = (if ?flag then [joinpath out ''model.onnx''] else [])"
          using w1(3) by (cases ev) simp_all
        have fr: "\<forall>p. p \<notin> set (written ?pre) \<longrightarrow> map_of (fs ?w3) p = map_of (fs w) p"
          unfolding wr using w1(1) by (simp add: log_event_def map_of_write_file)
        from R e3 m3 wr fr have ?stored by blast
        then show ?thesis ..
      qed
    qed
  qed
qed



lemma build_rank0_stub:
  "build_engine_for_rank stub_ext parallel_builder shard0 [''out''] None False w =
     (Inr (),
      write_file [''out'', ''llama_float16_tp2_rank0.engine''] ''engine:llama_float16_tp2_rank0.engine''
        (write_file [''out'', ''build.json''] ''build-config''
          (write_file [''out'', ''timings.cache''] ''timings''
            (write_file [''out'', ''config.json''] ''hf-config''
              (log_event (EvBuildEngine ''llama_float16_tp2_rank0.engine'')
                (log_event (EvFromHuggingFace ''llama-checkpoint'') w))))))"
  by (simp add: stub_eval)

lemma build_rank1_stub:
  "build_engine_for_rank stub_ext parallel_builder shard1 [''out''] None False w =
     (Inr (),
      write_file [''out'', ''llama_float16_tp2_rank1.engine''] ''engine:llama_float16_tp2_rank1.engine''
        (log_event (EvBuildEngine ''llama_float16_tp2_rank1.engine'')
          (log_event (EvFromHuggingFace ''llama-checkpoint'') w)))"
  by (simp add: stub_eval)

lemma build_rank1_onnx:
  "build_engine_for_rank onnx_ext parallel_builder shard1 [''out''] None False w =
     (Inr (),
      write_file [''out'', ''llama_float16_tp2_rank1.engine''] ''engine:llama_float16_tp2_rank1.engine''
        (log_event (EvBuildEngine ''llama_float16_tp2_rank1.engine'')
          (write_file [''out'', ''model.onnx''] ''onnx''
            (log_event (EvFromHuggingFace ''llama-checkpoint'') w))))"
  by (simp add: stub_eval)


lemma build_rank0_no_engine:
  "build_engine_for_rank no_engine_ext parallel_builder shard0 [''out''] None False w =
     (Inl (RuntimeError ''TRT Engine build failed... Please check the logs and open up an issue.''),
      write_file [''out'', ''build.json''] ''build-config''
        (write_file [''out'', ''timings.cache''] ''timings''
          (write_file [''out'', ''config.json''] ''hf-config''
            (log_event (EvBuildEngine ''llama_float16_tp2_rank0.engine'')
              (log_event (EvFromHuggingFace ''llama-checkpoint'') w)))))"
  by (simp add: stub_eval)

lemma build_rank1_failing_loader:
  "build_engine_for_rank failing_loader_ext parallel_builder shard1 [''out''] None False w =
     (Inl (ExternalError ''load failed''), log_event (EvFromHuggingFace ''llama-checkpoint'') w)"
  by (simp add: stub_eval)


section \<open>Properties of the dispatch\<close>

lemma build_parallel_loop_raises:
  "shards \<noteq> [] \<Longrightarrow> build_parallel_loop ext b shards out opt w = (Inl TypeError, w)"
  by (cases shards) (simp_all add: Pool_map_def)

lemma build_parallel_raises:
  "build_parallel ext b shards out opt w = (Inl TypeError, w)"
proof (cases "num_parallel_jobs (build_info b) > 1")
  case False
  then show ?thesis by (simp add: build_parallel_def)
next
  case jobs: True
  show ?thesis
  proof (cases "num_parallel_jobs (build_info b) > int (length shards)")
    case True
    with jobs show ?thesis by (simp add: build_parallel_def)
  next
    case False
    with jobs have "shards \<noteq> []" by auto
    with jobs False show ?thesis
      by (simp add: build_parallel_def build_parallel_loop_raises)
  qed
qed

text \<open>
  C3. Serial and parallel dispatch are meant to leave the same engine files. With the
  deterministic collaborators and two shards, \<^verbatim>\<open>_build_serial\<close> returns and has written
  the three shared files and one engine per rank; \<^verbatim>\<open>_build_parallel\<close> on the same input
  raises \<^verbatim>\<open>TypeError\<close> at its first call of \<^verbatim>\<open>Pool.map\<close> and writes nothing, as it does
  on every input.
\<close>

theorem serial_and_parallel_differ:
  "fst (build_serial stub_ext parallel_builder [shard0, shard1] [''out''] None world0) = Inr ()
   \<and> written (events (snd (build_serial stub_ext parallel_builder [shard0, shard1] [''out''] None world0))) =
       [[''out'', ''config.json''], [''out'', ''timings.cache''], [''out'', ''build.json''],
        [''out'', ''llama_float16_tp2_rank0.engine''], [''out'', ''llama_float16_tp2_rank1.engine'']]
   \<and> map_of (fs (snd (build_serial stub_ext parallel_builder [shard0, shard1] [''out''] None world0)))
        [''out'', ''llama_float16_tp2_rank1.engine''] = Some (File ''engine:llama_float16_tp2_rank1.engine'')
   \<and> build_parallel stub_ext parallel_builder [shard0, shard1] [''out''] None world0 = (Inl TypeError, world0)
   \<and> map_of (fs world0) [''out'', ''llama_float16_tp2_rank1.engine''] = None"
  by (simp add: build_rank0_stub build_rank1_stub build_parallel_raises write_file_def log_event_def world0_def)

end
